theory Spec2Isabelle
  imports Complex_Main
begin

section \<open>Python text primitives used by both scripts\<close>

text \<open>
  Python strings are modelled as \<^typ>\<open>string\<close>. The non-ASCII symbols of the
  source's literals are written as their UTF-8 bytes, the form in which \<open>print\<close>
  sends them to standard output. Python floats are read as exact rationals: this agrees
  with Python wherever the values involved are exactly representable doubles
  (such as \<open>0\<close> and \<open>1234.5\<close>), and idealises it elsewhere: a decimal such as
  \<open>2.675\<close>, which Python first rounds to the nearest double, is formatted here from
  its exact value, and the activation rate is computed here without the rounding of
  float division.
\<close>

definition cross_mark :: string where
  "cross_mark = [CHR 0xE2, CHR 0x9D, CHR 0x8C]"

definition check_mark_button :: string where
  "check_mark_button = [CHR 0xE2, CHR 0x9C, CHR 0x85]"

definition bar_chart :: string where
  "bar_chart = [CHR 0xF0, CHR 0x9F, CHR 0x93, CHR 0x8A]"

definition rocket :: string where
  "rocket = [CHR 0xF0, CHR 0x9F, CHR 0x9A, CHR 0x80]"

definition light_bulb :: string where
  "light_bulb = [CHR 0xF0, CHR 0x9F, CHR 0x92, CHR 0xA1]"

definition bullet :: string where
  "bullet = [CHR 0xE2, CHR 0x80, CHR 0xA2]"

definition right_arrow :: string where
  "right_arrow = [CHR 0xE2, CHR 0x86, CHR 0x92]"

definition check_mark :: string where
  "check_mark = [CHR 0xE2, CHR 0x9C, CHR 0x93]"

definition ballot_x :: string where
  "ballot_x = [CHR 0xE2, CHR 0x9C, CHR 0x97]"

definition info_mark :: string where
  "info_mark = [CHR 0xE2, CHR 0x84, CHR 0xB9]"

definition wrench :: string where
  "wrench = [CHR 0xF0, CHR 0x9F, CHR 0x94, CHR 0xA7]"

definition party_popper :: string where
  "party_popper = [CHR 0xF0, CHR 0x9F, CHR 0x8E, CHR 0x89]"

definition file_folder :: string where
  "file_folder = [CHR 0xF0, CHR 0x9F, CHR 0x93, CHR 0x81]"

text \<open>Decimal digits of a natural number, as \<open>str\<close> prints them.\<close>

definition digit_char :: "nat \<Rightarrow> char" where
  "digit_char d = ''0123456789'' ! d"

fun nat_digits :: "nat \<Rightarrow> string" where
  "nat_digits n =
     (if n < 10 then [digit_char n]
      else nat_digits (n div 10) @ [digit_char (n mod 10)])"

text \<open>The \<open>,\<close> option of a format spec: a comma before every group of three digits,
  counted from the right. \<open>commas_rev\<close> works on the reversed digits.\<close>

fun commas_rev :: "string \<Rightarrow> string" where
  "commas_rev (a # b # c # d # ds) = a # b # c # CHR '','' # commas_rev (d # ds)"
| "commas_rev ds = ds"

definition with_commas :: "string \<Rightarrow> string" where
  "with_commas ds = rev (commas_rev (rev ds))"

definition zero_pad :: "nat \<Rightarrow> string \<Rightarrow> string" where
  "zero_pad w s = replicate (w - length s) CHR ''0'' @ s"

definition ljust :: "nat \<Rightarrow> string \<Rightarrow> string" where
  "ljust w s = s @ replicate (w - length s) CHR '' ''"

text \<open>Rounding to the nearest integer, ties to even: the rounding of the \<open>f\<close>
  presentation type.\<close>

definition round_half_even :: "rat \<Rightarrow> int" where
  "round_half_even x =
     (let q = \<lfloor>x\<rfloor>; r = x - of_int q
      in if r < 1 / 2 then q
         else if 1 / 2 < r then q + 1
         else if even q then q else q + 1)"

text \<open>\<open>format(x, ',.df')\<close> when \<open>grouping\<close> holds and \<open>format(x, '.df')\<close> otherwise.\<close>

definition format_fixed :: "bool \<Rightarrow> nat \<Rightarrow> rat \<Rightarrow> string" where
  "format_fixed grouping d x =
     (let n = nat (round_half_even (\<bar>x\<bar> * 10 ^ d));
          ip = nat_digits (n div 10 ^ d);
          fp = zero_pad d (nat_digits (n mod 10 ^ d))
      in (if x < 0 then ''-'' else '''')
         @ (if grouping then with_commas ip else ip)
         @ (if d = 0 then '''' else ''.'' @ fp))"

text \<open>\<open>format(i, ',')\<close> for an integer.\<close>

definition format_int_grouped :: "int \<Rightarrow> string" where
  "format_int_grouped i =
     (if i < 0 then ''-'' else '''') @ with_commas (nat_digits (nat \<bar>i\<bar>))"

section \<open>quick_dashboard.py: formatters\<close>

definition format_currency :: "rat option \<Rightarrow> string" where
  "format_currency amount =
     (case amount of
        None \<Rightarrow> ''$0.00''
      | Some a \<Rightarrow> ''$'' @ format_fixed True 2 a)"

definition format_percentage :: "rat option \<Rightarrow> string" where
  "format_percentage v =
     (case v of
        None \<Rightarrow> ''0.00%''
      | Some x \<Rightarrow> format_fixed False 2 x @ ''%'')"

definition format_number :: "int option \<Rightarrow> string" where
  "format_number v =
     (case v of
        None \<Rightarrow> ''0''
      | Some i \<Rightarrow> format_int_grouped i)"

section \<open>Effects, errors and outcomes\<close>

text \<open>
  What a script does besides computing is recorded as a trace of events, in the order
  in which they happen: a line given to \<open>print\<close>, a query sent to the database
  (named by the description passed to \<open>execute_query\<close>), an external command started
  with \<open>subprocess.run\<close>, and a file written.
\<close>

datatype event =
    Print string
  | Execute string
  | Run "string list"
  | WriteFile string string

text \<open>\<open>psycopg2.Error\<close>, with the text that \<open>str\<close> gives for it.\<close>

datatype db_error = DbError string

text \<open>The exception that a method call on \<open>None\<close> raises; the argument is the
  attribute looked up.\<close>

datatype py_exception = AttributeError string

definition str_exception :: "py_exception \<Rightarrow> string" where
  "str_exception x =
     (case x of AttributeError a \<Rightarrow>
        [CHR 0x27] @ ''NoneType'' @ [CHR 0x27] @ '' object has no attribute ''
        @ [CHR 0x27] @ a @ [CHR 0x27])"

datatype outcome = Returned | SysExit int | Raised py_exception

section \<open>quick_dashboard.py: queries and printing\<close>

definition execute_query :: "(db_error + 'row list) \<Rightarrow> string \<Rightarrow> event list \<times> 'row list" where
  "execute_query response description =
     (case response of
        Inr rows \<Rightarrow> ([Execute description], rows)
      | Inl (DbError e) \<Rightarrow>
          ([Execute description,
            Print (cross_mark @ '' Query failed ('' @ description @ ''): '' @ e)], []))"

definition print_header :: "string \<Rightarrow> event list" where
  "print_header title_text =
     [Print (''\<newline>'' @ replicate 60 CHR ''=''),
      Print (bar_chart @ '' '' @ title_text),
      Print (replicate 60 CHR ''='')]"

definition print_metric :: "string \<Rightarrow> string \<Rightarrow> string \<Rightarrow> event list" where
  "print_metric label v unit_text = [Print (''  '' @ ljust 35 label @ '' '' @ v @ unit_text)]"

text \<open>\<open>str.title\<close> and \<open>str.replace\<close> on ASCII text: a letter is upper-cased
  when the character before it is not a letter and lower-cased otherwise.\<close>

definition is_upper :: "char \<Rightarrow> bool" where
  "is_upper c = (65 \<le> (of_char c :: nat) \<and> (of_char c :: nat) \<le> 90)"

definition is_lower :: "char \<Rightarrow> bool" where
  "is_lower c = (97 \<le> (of_char c :: nat) \<and> (of_char c :: nat) \<le> 122)"

definition to_upper :: "char \<Rightarrow> char" where
  "to_upper c = (if is_lower c then char_of ((of_char c :: nat) - 32) else c)"

definition to_lower :: "char \<Rightarrow> char" where
  "to_lower c = (if is_upper c then char_of ((of_char c :: nat) + 32) else c)"

fun title_from :: "bool \<Rightarrow> string \<Rightarrow> string" where
  "title_from prev_cased [] = []"
| "title_from prev_cased (c # cs) =
     (if is_upper c \<or> is_lower c
      then (if prev_cased then to_lower c else to_upper c) # title_from True cs
      else c # title_from False cs)"

definition title :: "string \<Rightarrow> string" where
  "title s = title_from False s"

definition replace_char :: "char \<Rightarrow> string \<Rightarrow> string \<Rightarrow> string" where
  "replace_char old new s = concat (map (\<lambda>c. if c = old then new else [c]) s)"

text \<open>The value of a \<open>DATE_TRUNC('month', ...)\<close> column, and \<open>strftime('%Y-%m')\<close>
  on it (years of four digits).\<close>

record timestamp =
  year :: nat
  month_of_year :: nat

definition strftime_Y_m :: "timestamp \<Rightarrow> string" where
  "strftime_Y_m ts =
     zero_pad 4 (nat_digits (year ts)) @ ''-'' @ zero_pad 2 (nat_digits (month_of_year ts))"

text \<open>The rows that the queries of the report return, one field per selected column;
  a column that SQL may leave \<open>NULL\<close> is an option. A query with a single column has
  that column's value as its row: \<open>count\<close> for the counting queries, \<open>total_mrr\<close>
  and \<open>conversion_rate\<close> (both nullable) for the other two.\<close>

record plan_row =
  plan :: "string option"
  transactions :: int
  revenue :: "rat option"

record growth_row =
  month :: timestamp
  new_users :: int
  activated_users :: int

record channel_row =
  signup_channel :: "string option"
  total_signups :: int
  paid_conversions :: int
  conversion_rate :: "rat option"

text \<open>An open connection answers each query of the report with rows or with an error.\<close>

record connection =
  active_users_result :: "db_error + int list"
  paid_subs_result :: "db_error + int list"
  mrr_result :: "db_error + rat option list"
  conversion_result :: "db_error + rat option list"
  plan_revenue_result :: "db_error + plan_row list"
  growth_data_result :: "db_error + growth_row list"
  channel_data_result :: "db_error + channel_row list"
  recent_signups_result :: "db_error + int list"
  recent_upgrades_result :: "db_error + int list"
  recent_churn_result :: "db_error + int list"
  projects_created_result :: "db_error + int list"

definition connect_db :: "(db_error + connection) \<Rightarrow> event list \<times> (int + connection)" where
  "connect_db attempt =
     (case attempt of
        Inr conn \<Rightarrow> ([], Inr conn)
      | Inl (DbError e) \<Rightarrow>
          ([Print (cross_mark @ '' Database connection failed: '' @ e),
            Print ''\<newline>Try running: ./setup_database.sh''], Inl 1))"

section \<open>quick_dashboard.py: the sections of the report\<close>

text \<open>The six counting metrics share one shape: run the query, then print
  \<open>rows[0]['count'] if rows else 0\<close> under the metric's label.\<close>

definition count_metric :: "(db_error + int list) \<Rightarrow> string \<Rightarrow> string \<Rightarrow> event list" where
  "count_metric response description label =
     (let (ev, rows) = execute_query response description
      in ev @ print_metric label
                (format_number (Some (case rows of [] \<Rightarrow> 0 | r # _ \<Rightarrow> r))) [])"

text \<open>\<open>rows[0][column] if rows and rows[0][column] else 0\<close>: a missing row, a
  \<open>NULL\<close> and a zero all give \<open>0\<close>.\<close>

definition first_or_zero :: "rat option list \<Rightarrow> rat" where
  "first_or_zero rows =
     (case rows of
        [] \<Rightarrow> 0
      | r # _ \<Rightarrow> (case r of None \<Rightarrow> 0 | Some v \<Rightarrow> if v = 0 then 0 else v))"

definition mrr_section :: "(db_error + rat option list) \<Rightarrow> event list" where
  "mrr_section response =
     (let (ev, rows) = execute_query response ''Current MRR'';
          mrr_value = first_or_zero rows
      in ev
         @ print_metric ''Monthly Recurring Revenue'' (format_currency (Some mrr_value)) []
         @ print_metric ''Annual Recurring Revenue'' (format_currency (Some (mrr_value * 12))) [])"

definition conversion_section :: "(db_error + rat option list) \<Rightarrow> event list" where
  "conversion_section response =
     (let (ev, rows) = execute_query response ''Conversion rate'';
          conv_rate = first_or_zero rows
      in ev @ print_metric ''Free-to-Paid Conversion'' (format_percentage (Some conv_rate)) [])"

text \<open>The three loops over result rows. A loop stops at the first row on which a
  method is called on \<open>None\<close>, with what it printed until then.\<close>

fun plan_revenue_loop :: "plan_row list \<Rightarrow> event list \<times> py_exception option" where
  "plan_revenue_loop [] = ([], None)"
| "plan_revenue_loop (row # rows) =
     (case plan row of
        None \<Rightarrow> ([], Some (AttributeError ''title''))
      | Some p \<Rightarrow>
          (let plan_name = title p;
               tx = format_number (Some (transactions row));
               rv = format_currency (revenue row);
               (ev, x) = plan_revenue_loop rows
           in (print_metric (plan_name @ '' Plan'')
                 (rv @ '' ('' @ tx @ '' transactions)'') [] @ ev, x)))"

definition activation_rate :: "growth_row \<Rightarrow> rat" where
  "activation_rate row =
     (if new_users row > 0
      then of_int (activated_users row) / of_int (new_users row) * 100
      else 0)"

fun growth_loop :: "growth_row list \<Rightarrow> event list" where
  "growth_loop [] = []"
| "growth_loop (row # rows) =
     print_metric (strftime_Y_m (month row))
       (format_number (Some (new_users row)) @ '' signups, ''
        @ format_number (Some (activated_users row)) @ '' activated (''
        @ format_fixed False 1 (activation_rate row) @ ''%)'') []
     @ growth_loop rows"

fun channel_loop :: "channel_row list \<Rightarrow> event list \<times> py_exception option" where
  "channel_loop [] = ([], None)"
| "channel_loop (row # rows) =
     (case signup_channel row of
        None \<Rightarrow> ([], Some (AttributeError ''replace''))
      | Some c \<Rightarrow>
          (let channel = title (replace_char CHR ''_'' '' '' c);
               signups = format_number (Some (total_signups row));
               conversions = format_number (Some (paid_conversions row));
               rate = format_percentage (conversion_rate row);
               (ev, x) = channel_loop rows
           in (print_metric channel
                 (signups @ '' signups '' @ right_arrow @ '' '' @ conversions
                  @ '' paid ('' @ rate @ '')'') [] @ ev, x)))"

definition plan_revenue_section :: "(db_error + plan_row list) \<Rightarrow> event list \<times> py_exception option" where
  "plan_revenue_section response =
     (let (ev, rows) = execute_query response ''Plan revenue'';
          (ev', x) = plan_revenue_loop rows
      in (ev @ ev', x))"

definition growth_section :: "(db_error + growth_row list) \<Rightarrow> event list" where
  "growth_section response =
     (let (ev, rows) = execute_query response ''User growth''
      in ev @ growth_loop rows)"

definition channel_section :: "(db_error + channel_row list) \<Rightarrow> event list \<times> py_exception option" where
  "channel_section response =
     (let (ev, rows) = execute_query response ''Channel performance'';
          (ev', x) = channel_loop rows
      in (ev @ ev', x))"

text \<open>Statements in sequence: an exception in one of them ends the sequence there.\<close>

fun in_sequence :: "(event list \<times> py_exception option) list \<Rightarrow> event list \<times> py_exception option" where
  "in_sequence [] = ([], None)"
| "in_sequence ((ev, Some x) # rest) = (ev, Some x)"
| "in_sequence ((ev, None) # rest) =
     (let (ev', x) = in_sequence rest in (ev @ ev', x))"

definition report_body :: "connection \<Rightarrow> event list \<times> py_exception option" where
  "report_body conn =
     in_sequence
       [(print_header ''Key Metrics Overview'', None),
        (count_metric (active_users_result conn) ''Active users'' ''Active Users'', None),
        (count_metric (paid_subs_result conn) ''Paid subscribers'' ''Paid Subscribers'', None),
        (mrr_section (mrr_result conn), None),
        (conversion_section (conversion_result conn), None),
        (print_header ''Revenue by Plan (Last 30 Days)'', None),
        plan_revenue_section (plan_revenue_result conn),
        (print_header ''User Growth (Last 6 Months)'', None),
        (growth_section (growth_data_result conn), None),
        (print_header ''Top Performing Acquisition Channels'', None),
        channel_section (channel_data_result conn),
        (print_header ''Recent Activity (Last 7 Days)'', None),
        (count_metric (recent_signups_result conn) ''Recent signups'' ''New Signups'', None),
        (count_metric (recent_upgrades_result conn) ''Recent upgrades''
           ''New Paid Subscriptions'', None),
        (count_metric (recent_churn_result conn) ''Recent churn''
           ''Cancelled Subscriptions'', None),
        (count_metric (projects_created_result conn) ''Projects created''
           ''Projects Created'', None)]"

definition report_footer :: "event list" where
  "report_footer =
     [Print (''\<newline>'' @ replicate 60 CHR ''=''),
      Print (check_mark_button @ '' Dashboard generated successfully!''),
      Print (''\<newline>'' @ light_bulb @ '' Tips:''),
      Print (''  '' @ bullet
             @ '' Run analytics queries in analytics_queries.sql for detailed analysis''),
      Print (''  '' @ bullet @ '' Check schema_diagram.png for database structure''),
      Print (''  '' @ bullet @ '' Use pgAdmin or psql for interactive querying''),
      Print (replicate 60 CHR ''='' @ ''\<newline>'')]"

text \<open>\<open>now\<close> is the text of \<open>datetime.now().strftime('%Y-%m-%d %H:%M:%S')\<close>, and
  \<open>attempt\<close> what \<open>psycopg2.connect\<close> answers. Closing the connection at the end
  prints nothing and sends no query, so it leaves no event.\<close>

definition generate_dashboard :: "string \<Rightarrow> (db_error + connection) \<Rightarrow> event list \<times> outcome" where
  "generate_dashboard now attempt =
     (let banner = [Print (rocket @ '' SaaS Analytics Dashboard''),
                    Print (''Generated at: '' @ now)]
      in case connect_db attempt of
           (ev, Inl code) \<Rightarrow> (banner @ ev, SysExit code)
         | (ev, Inr conn) \<Rightarrow>
             (case report_body conn of
                (body, Some x) \<Rightarrow> (banner @ ev @ body, Raised x)
              | (body, None) \<Rightarrow> (banner @ ev @ body @ report_footer, Returned)))"

text \<open>The script as a whole: the trace and the exit status of the process. The import
  of the driver comes first; \<open>sys.exit\<close> passes through \<open>except Exception\<close>, any
  other exception is reported there. An interrupt from the keyboard is outside the model.\<close>

definition dashboard_main :: "bool \<Rightarrow> string \<Rightarrow> (db_error + connection) \<Rightarrow> event list \<times> int" where
  "dashboard_main has_psycopg2 now attempt =
     (if \<not> has_psycopg2
      then ([Print (cross_mark @ '' psycopg2 not found. Install with: pip install psycopg2-binary'')], 1)
      else case generate_dashboard now attempt of
             (ev, Returned) \<Rightarrow> (ev, 0)
           | (ev, SysExit code) \<Rightarrow> (ev, code)
           | (ev, Raised x) \<Rightarrow>
               (ev @ [Print (''\<newline>'' @ cross_mark @ '' Unexpected error: '' @ str_exception x)], 1))"

text \<open>What a trace shows on standard output, and the queries it sent, in order.\<close>

definition stdout :: "event list \<Rightarrow> string list" where
  "stdout tr = concat (map (\<lambda>e. case e of Print s \<Rightarrow> [s] | _ \<Rightarrow> []) tr)"

definition executed :: "event list \<Rightarrow> string list" where
  "executed tr = concat (map (\<lambda>e. case e of Execute d \<Rightarrow> [d] | _ \<Rightarrow> []) tr)"

section \<open>quick_dashboard.py: the two queries whose arithmetic the report relies on\<close>

text \<open>
  The tables as far as these queries read them. A nullable column is an option; a
  comparison with \<open>NULL\<close> is not true, so a row passes \<open>WHERE c = v\<close> only when
  the column is \<open>Some v\<close>. A \<open>NUMERIC\<close> value is a rational, together with its
  display scale where the scale matters. Sums are exact. The division of the
  recurring-revenue query rounds, as the database's \<open>NUMERIC\<close> division does; in the
  conversion query the quotient is left exact, since the properties below concern its zero
  denominator only.
\<close>

record users_row =
  users_id :: nat

record subscriptions_row =
  user_id :: "nat option"
  plan_id :: "int option"
  status :: "string option"
  billing_cycle :: "string option"
  mrr :: "rat option"

text \<open>\<open>SUM\<close> skips \<open>NULL\<close> and is \<open>NULL\<close> when nothing is left.\<close>

definition sql_sum :: "rat option list \<Rightarrow> rat option" where
  "sql_sum vs =
     (case filter (\<lambda>v. v \<noteq> None) vs of
        [] \<Rightarrow> None
      | ws \<Rightarrow> Some (sum_list (map the ws)))"

text \<open>
  \<open>NUMERIC\<close> division in PostgreSQL, for a divisor other than zero (a zero divisor is
  an error, see \<open>sql_div\<close>). An operand is a value with its display scale. The
  quotient is rounded, half away from zero, to the scale that \<open>select_div_scale\<close>
  chooses: enough for 16 significant digits, counted in the digits to base 10000 in
  which the values are stored, and no less than the scale of either operand.
  \<open>top_digit\<close> gives the weight and the first base-10000 digit of a positive integer,
  \<open>top_fraction_digit\<close> those of a value below one, which has at most
  \<open>(dscale + 3) div 4\<close> digits after the point.
\<close>

fun top_digit :: "nat \<Rightarrow> nat \<times> nat" where
  "top_digit n =
     (if n < 10000 then (0, n)
      else (let (w, d) = top_digit (n div 10000) in (Suc w, d)))"

declare top_digit.simps [simp del]

primrec top_fraction_digit :: "nat \<Rightarrow> rat \<Rightarrow> int \<Rightarrow> int \<times> nat" where
  "top_fraction_digit 0 x w = (0, 0)"
| "top_fraction_digit (Suc fuel) x w =
     (let y = x * 10000
      in if 1 \<le> y then (w, nat \<lfloor>y\<rfloor>) else top_fraction_digit fuel y (w - 1))"

definition weight_and_first_digit :: "rat \<times> nat \<Rightarrow> int \<times> nat" where
  "weight_and_first_digit v =
     (case v of (x, dscale) \<Rightarrow>
        if x = 0 then (0, 0)
        else if 1 \<le> \<bar>x\<bar> then (let (w, d) = top_digit (nat \<lfloor>\<bar>x\<bar>\<rfloor>) in (int w, d))
        else top_fraction_digit ((dscale + 3) div 4) \<bar>x\<bar> (- 1))"

definition select_div_scale :: "rat \<times> nat \<Rightarrow> rat \<times> nat \<Rightarrow> nat" where
  "select_div_scale var1 var2 =
     (let (weight1, firstdigit1) = weight_and_first_digit var1;
          (weight2, firstdigit2) = weight_and_first_digit var2;
          qweight = weight1 - weight2 - (if firstdigit1 \<le> firstdigit2 then 1 else 0);
          rscale = 16 - qweight * 4
      in nat (min (max (max (max rscale (int (snd var1))) (int (snd var2))) 0) 1000))"

definition round_half_away :: "rat \<Rightarrow> int" where
  "round_half_away x = (if x < 0 then - \<lfloor>- x + 1 / 2\<rfloor> else \<lfloor>x + 1 / 2\<rfloor>)"

definition numeric_quotient :: "rat \<times> nat \<Rightarrow> rat \<times> nat \<Rightarrow> rat" where
  "numeric_quotient var1 var2 =
     (let rscale = select_div_scale var1 var2
      in of_int (round_half_away (fst var1 / fst var2 * 10 ^ rscale)) / 10 ^ rscale)"

text \<open>The \<open>CASE\<close> expression of the recurring-revenue query. The column \<open>mrr\<close>
  is \<open>DECIMAL(10,2)\<close>, so its values have display scale 2; the literal \<open>12\<close> is
  an integer, of scale 0.\<close>

definition mrr_case :: "subscriptions_row \<Rightarrow> rat option" where
  "mrr_case s =
     (if billing_cycle s = Some ''monthly'' then mrr s
      else if billing_cycle s = Some ''annual''
      then map_option (\<lambda>a. numeric_quotient (a, 2) (12, 0)) (mrr s)
      else mrr s)"

definition current_mrr_query :: "subscriptions_row list \<Rightarrow> rat option list" where
  "current_mrr_query subscriptions =
     [sql_sum (map mrr_case (filter (\<lambda>s. status s = Some ''active'') subscriptions))]"

text \<open>\<open>users u LEFT JOIN subscriptions s ON u.id = s.user_id AND s.status = 'active'\<close>.\<close>

definition left_join_active ::
  "users_row list \<Rightarrow> subscriptions_row list \<Rightarrow> (users_row \<times> subscriptions_row option) list" where
  "left_join_active users subscriptions =
     concat (map (\<lambda>u.
       (let ms = filter (\<lambda>s. user_id s = Some (users_id u) \<and> status s = Some ''active'')
                   subscriptions
        in if ms = [] then [(u, None)] else map (\<lambda>s. (u, Some s)) ms)) users)"

definition count_distinct :: "nat option list \<Rightarrow> int" where
  "count_distinct vs = int (length (remdups (filter (\<lambda>v. v \<noteq> None) vs)))"

text \<open>The common table expression: \<open>(total_users, paid_users)\<close>.\<close>

definition conversion_data :: "users_row list \<Rightarrow> subscriptions_row list \<Rightarrow> int \<times> int" where
  "conversion_data users subscriptions =
     (let joined = left_join_active users subscriptions
      in (count_distinct (map (\<lambda>(u, s). Some (users_id u)) joined),
          count_distinct (map (\<lambda>(u, s).
            (case s of
               None \<Rightarrow> None
             | Some s' \<Rightarrow>
                 (case plan_id s' of
                    None \<Rightarrow> None
                  | Some p \<Rightarrow> if p \<noteq> 1 then Some (users_id u) else None))) joined)))"

definition sql_nullif :: "int \<Rightarrow> int \<Rightarrow> int option" where
  "sql_nullif a b = (if a = b then None else Some a)"

text \<open>Division: \<open>NULL\<close> when an operand is \<open>NULL\<close>, an error when the divisor is zero.\<close>

definition sql_div :: "rat option \<Rightarrow> rat option \<Rightarrow> db_error + rat option" where
  "sql_div a b =
     (case (a, b) of
        (Some x, Some y) \<Rightarrow>
          if y = 0 then Inl (DbError ''division by zero'') else Inr (Some (x / y))
      | _ \<Rightarrow> Inr None)"

text \<open>\<open>paid_users * 100.0 / NULLIF(total_users, 0)\<close>, on the counts.\<close>

definition conversion_rate_sql :: "int \<Rightarrow> int \<Rightarrow> db_error + rat option" where
  "conversion_rate_sql total_users paid_users =
     sql_div (Some (of_int paid_users * 100)) (map_option of_int (sql_nullif total_users 0))"

definition conversion_query ::
  "users_row list \<Rightarrow> subscriptions_row list \<Rightarrow> db_error + rat option list" where
  "conversion_query users subscriptions =
     (let (total_users, paid_users) = conversion_data users subscriptions
      in case conversion_rate_sql total_users paid_users of
           Inl e \<Rightarrow> Inl e
         | Inr v \<Rightarrow> Inr [v])"

section \<open>generate_erd.py\<close>

text \<open>The two characters \<open>\l\<close>, the line break of a record label, and Python's
  \<open>sep.join\<close>.\<close>

definition lbr :: string where
  "lbr = [CHR 0x5C, CHR ''l'']"

fun join :: "string \<Rightarrow> string list \<Rightarrow> string" where
  "join sep [] = []"
| "join sep [x] = x"
| "join sep (x # y # ys) = x @ sep @ join sep (y # ys)"

text \<open>\<open>s.split('->')\<close>: \<open>acc\<close> holds the current part, reversed.\<close>

fun split_arrow_from :: "string \<Rightarrow> string \<Rightarrow> string list" where
  "split_arrow_from acc [] = [rev acc]"
| "split_arrow_from acc [c] = [rev (c # acc)]"
| "split_arrow_from acc (c # d # cs) =
     (if c = CHR ''-'' \<and> d = CHR ''>'' then rev acc # split_arrow_from [] cs
      else split_arrow_from (c # acc) (d # cs))"

definition split_arrow :: "string \<Rightarrow> string list" where
  "split_arrow s = split_arrow_from [] s"

text \<open>A row of the schema data: \<open>(row[0], row[1], row[2])\<close>, that is type, name and
  details. The details of a table are the \<open>string_agg\<close> of its columns, which is
  \<open>NULL\<close> when every column's text is \<open>NULL\<close>; Python then has \<open>None\<close>.\<close>

type_synonym schema_row = "string \<times> string \<times> string option"

definition node_decl :: "string \<Rightarrow> string \<Rightarrow> string" where
  \<open>node_decl table_name columns =
     ''  '' @ table_name @ '' [label="'' @ table_name @ ''|'' @ columns @ lbr
     @ ''", shape=record];''\<close>

definition edge_decl :: "string \<Rightarrow> string \<Rightarrow> string" where
  "edge_decl from_table to_table = ''  '' @ from_table @ '' -> '' @ to_table @ '';''"

text \<open>One turn of the loop over the schema data, on the two lists it builds. On a table
  row without details the call of \<open>replace\<close> raises.\<close>

definition dot_step ::
  "string list \<times> string list \<Rightarrow> schema_row \<Rightarrow> py_exception + string list \<times> string list" where
  "dot_step acc row =
     (case (acc, row) of ((tables, relationships), (kind, name, details)) \<Rightarrow>
        if kind = ''TABLES''
        then (case details of
                None \<Rightarrow> Inl (AttributeError ''replace'')
              | Some text \<Rightarrow>
                  Inr (tables @ [node_decl name (replace_char CHR ''\<newline>'' lbr text)],
                       relationships))
        else if kind = ''RELATIONSHIPS''
        then (case split_arrow name of
                [from_table, to_table] \<Rightarrow>
                  Inr (tables, relationships @ [edge_decl from_table to_table])
              | _ \<Rightarrow> Inr (tables, relationships))
        else Inr (tables, relationships))"

fun dot_loop ::
  "string list \<times> string list \<Rightarrow> schema_row list \<Rightarrow> py_exception + string list \<times> string list" where
  "dot_loop acc [] = Inr acc"
| "dot_loop acc (row # rows) =
     (case dot_step acc row of
        Inl x \<Rightarrow> Inl x
      | Inr acc' \<Rightarrow> dot_loop acc' rows)"

definition dot_lists :: "schema_row list \<Rightarrow> py_exception + string list \<times> string list" where
  "dot_lists schema_data = dot_loop ([], []) schema_data"

definition dot_prologue :: string where
  \<open>dot_prologue =
     join ''\<newline>''
       [''digraph ERD {'',
        ''  rankdir=TB;'',
        ''  node [fontname="Arial", fontsize=10];'',
        ''  edge [fontname="Arial", fontsize=8];'',
        ''  '',
        ''  // Define table styling'',
        ''  node [shape=record, style=filled, fillcolor=lightblue];'',
        ''  '',
        '''']\<close>

definition dot_middle :: string where
  "dot_middle =
     join ''\<newline>''
       ['''',
        '''',
        ''  // Define relationships'',
        ''  edge [arrowhead=crow];'',
        ''  '',
        '''']"

definition dot_epilogue :: string where
  "dot_epilogue = ''\<newline>}''"

definition generate_dot_content :: "schema_row list \<Rightarrow> py_exception + string" where
  "generate_dot_content schema_data =
     (case dot_lists schema_data of
        Inl x \<Rightarrow> Inl x
      | Inr (tables, relationships) \<Rightarrow>
          Inr (dot_prologue @ join ''\<newline>'' tables @ dot_middle
               @ join ''\<newline>'' relationships @ dot_epilogue))"

text \<open>The text that \<open>main\<close> writes, line by line.\<close>

definition static_dot_lines :: "string list" where
  \<open>static_dot_lines =
     [''digraph ERD {'',
      ''  rankdir=TB;'',
      ''  node [fontname="Arial", fontsize=10];'',
      ''  edge [fontname="Arial", fontsize=8];'',
      ''  '',
      ''  // Define table styling'',
      ''  node [shape=record, style=filled, fillcolor=lightblue];'',
      ''  '',
      ''  users [label="users|id UUID PK'' @ lbr @
       ''email VARCHAR(255)'' @ lbr @
       ''created_at TIMESTAMP'' @ lbr @
       ''activated_at TIMESTAMP'' @ lbr @
       ''last_login_at TIMESTAMP'' @ lbr @
       ''status user_status'' @ lbr @
       ''signup_channel signup_channel'' @ lbr @
       ''country_code VARCHAR(2)'' @ lbr @
       ''utm_source VARCHAR(100)'' @ lbr @
       ''utm_medium VARCHAR(100)'' @ lbr @
       ''utm_campaign VARCHAR(100)'' @ lbr @
       ''referred_by_user_id UUID", shape=record];'',
      ''  '',
      ''  plans [label="plans|id SERIAL PK'' @ lbr @
       ''name plan_type'' @ lbr @
       ''price_monthly DECIMAL(10,2)'' @ lbr @
       ''price_annual DECIMAL(10,2)'' @ lbr @
       ''max_projects INTEGER'' @ lbr @
       ''max_team_members INTEGER'' @ lbr @
       ''features JSONB", shape=record];'',
      ''  '',
      ''  subscriptions [label="subscriptions|id UUID PK'' @ lbr @
       ''user_id UUID'' @ lbr @
       ''plan_id INTEGER'' @ lbr @
       ''status subscription_status'' @ lbr @
       ''billing_cycle billing_cycle'' @ lbr @
       ''started_at TIMESTAMP'' @ lbr @
       ''ended_at TIMESTAMP'' @ lbr @
       ''cancelled_at TIMESTAMP'' @ lbr @
       ''mrr DECIMAL(10,2)'' @ lbr @
       ''created_at TIMESTAMP", shape=record];'',
      ''  '',
      ''  projects [label="projects|id UUID PK'' @ lbr @
       ''user_id UUID'' @ lbr @
       ''name VARCHAR(255)'' @ lbr @
       ''created_at TIMESTAMP'' @ lbr @
       ''completed_at TIMESTAMP'' @ lbr @
       ''is_active BOOLEAN", shape=record];'',
      ''  '',
      ''  tasks [label="tasks|id UUID PK'' @ lbr @
       ''project_id UUID'' @ lbr @
       ''user_id UUID'' @ lbr @
       ''title VARCHAR(500)'' @ lbr @
       ''created_at TIMESTAMP'' @ lbr @
       ''completed_at TIMESTAMP'' @ lbr @
       ''is_completed BOOLEAN", shape=record];'',
      ''  '',
      ''  team_memberships [label="team_memberships|id UUID PK'' @ lbr @
       ''inviter_user_id UUID'' @ lbr @
       ''invited_user_id UUID'' @ lbr @
       ''project_id UUID'' @ lbr @
       ''invited_at TIMESTAMP'' @ lbr @
       ''accepted_at TIMESTAMP'' @ lbr @
       ''role VARCHAR(50)", shape=record];'',
      ''  '',
      ''  revenue_events [label="revenue_events|id UUID PK'' @ lbr @
       ''user_id UUID'' @ lbr @
       ''subscription_id UUID'' @ lbr @
       ''amount DECIMAL(10,2)'' @ lbr @
       ''event_type VARCHAR(50)'' @ lbr @
       ''occurred_at TIMESTAMP'' @ lbr @
       ''stripe_payment_id VARCHAR(255)", shape=record];'',
      ''  '',
      ''  user_activities [label="user_activities|id UUID PK'' @ lbr @
       ''user_id UUID'' @ lbr @
       ''activity_type VARCHAR(100)'' @ lbr @
       ''metadata JSONB'' @ lbr @
       ''occurred_at TIMESTAMP", shape=record];'',
      ''  '',
      ''  funnel_events [label="funnel_events|id UUID PK'' @ lbr @
       ''user_id UUID'' @ lbr @
       ''event_name VARCHAR(100)'' @ lbr @
       ''occurred_at TIMESTAMP'' @ lbr @
       ''session_id VARCHAR(255)'' @ lbr @
       ''page_url VARCHAR(500)", shape=record];'',
      '''',
      ''  // Define relationships'',
      ''  edge [arrowhead=crow];'',
      ''  '',
      ''  subscriptions -> users [label="user_id"];'',
      ''  subscriptions -> plans [label="plan_id"];'',
      ''  projects -> users [label="user_id"];'',
      ''  tasks -> projects [label="project_id"];'',
      ''  tasks -> users [label="user_id"];'',
      ''  team_memberships -> users [label="inviter_user_id"];'',
      ''  team_memberships -> users [label="invited_user_id"];'',
      ''  team_memberships -> projects [label="project_id"];'',
      ''  revenue_events -> users [label="user_id"];'',
      ''  revenue_events -> subscriptions [label="subscription_id"];'',
      ''  user_activities -> users [label="user_id"];'',
      ''  funnel_events -> users [label="user_id"];'',
      ''  users -> users [label="referred_by_user_id"];'',
      ''}'']\<close>

definition dot_content :: string where
  "dot_content = join ''\<newline>'' static_dot_lines"

text \<open>What \<open>subprocess.run\<close> meets: no such program, or a process that ends with an
  exit status. A process ended by a signal, for which the return code is negative, is
  outside the model.\<close>

datatype run_result = FileNotFound | Completed nat

definition graphviz_hint :: string where
  "graphviz_hint = ballot_x
     @ '' Graphviz not found. Install with: apt-get install graphviz (Ubuntu) or brew install graphviz (Mac)''"

definition check_dependencies :: "bool \<Rightarrow> run_result \<Rightarrow> event list \<times> bool" where
  "check_dependencies psycopg2_found version_query =
     (let driver =
            (if psycopg2_found then [Print (check_mark @ '' psycopg2 found'')]
             else [Print (ballot_x @ '' psycopg2 not found. Install with: pip install psycopg2-binary''),
                   Print (info_mark @ '' Will generate static ERD without database connection'')]);
          probe = Run [''dot'', ''-V'']
      in case version_query of
           Completed rc \<Rightarrow>
             if rc = 0 then (driver @ [probe, Print (check_mark @ '' Graphviz found'')], True)
             else (driver @ [probe, Print graphviz_hint], False)
         | FileNotFound \<Rightarrow> (driver @ [probe, Print graphviz_hint], False))"

text \<open>\<open>str\<close> of the \<open>CalledProcessError\<close> that \<open>check=True\<close> raises.\<close>

definition repr_list :: "string list \<Rightarrow> string" where
  "repr_list xs = ''['' @ join '', '' (map (\<lambda>s. [CHR 0x27] @ s @ [CHR 0x27]) xs) @ '']''"

definition str_called_process_error :: "string list \<Rightarrow> nat \<Rightarrow> string" where
  "str_called_process_error cmd rc =
     ''Command '' @ [CHR 0x27] @ repr_list cmd @ [CHR 0x27]
     @ '' returned non-zero exit status '' @ nat_digits rc @ ''.''"

definition png_command :: "string list" where
  "png_command = [''dot'', ''-Tpng'', ''schema_diagram.dot'', ''-o'', ''schema_diagram.png'']"

definition svg_command :: "string list" where
  "svg_command = [''dot'', ''-Tsvg'', ''schema_diagram.dot'', ''-o'', ''schema_diagram.svg'']"

definition render_failed :: "string list \<Rightarrow> run_result \<Rightarrow> event list" where
  "render_failed cmd r =
     (case r of
        FileNotFound \<Rightarrow>
          [Print (ballot_x @ '' '' @ [CHR 0x27] @ ''dot'' @ [CHR 0x27]
                  @ '' command not found. Please install Graphviz'')]
      | Completed rc \<Rightarrow>
          [Print (ballot_x @ '' Error generating diagram: '' @ str_called_process_error cmd rc),
           Print (''Make sure Graphviz is installed and the '' @ [CHR 0x27] @ ''dot''
                  @ [CHR 0x27] @ '' command is available'')])"

definition render_diagrams :: "run_result \<Rightarrow> run_result \<Rightarrow> event list \<times> int" where
  "render_diagrams png svg =
     (if png \<noteq> Completed 0 then (Run png_command # render_failed png_command png, 1)
      else if svg \<noteq> Completed 0
      then ([Run png_command, Print (check_mark @ '' Generated schema_diagram.png''),
             Run svg_command] @ render_failed svg_command svg, 1)
      else ([Run png_command, Print (check_mark @ '' Generated schema_diagram.png''),
             Run svg_command, Print (check_mark @ '' Generated schema_diagram.svg''),
             Print (''\<newline>'' @ party_popper @ '' Schema diagrams generated successfully!''),
             Print (file_folder @ '' Files created:''),
             Print ''   - schema_diagram.dot (Graphviz source)'',
             Print ''   - schema_diagram.png (Image)'',
             Print ''   - schema_diagram.svg (Scalable vector)''], 0))"

text \<open>Everything around one run of the script: whether the driver can be imported, what
  the three calls of the renderer meet, whether the working directory can be written,
  the environment variables and the schema rows that the database holds.\<close>

record erd_env =
  psycopg2_installed :: bool
  dot_version :: run_result
  dot_writable :: bool
  dot_png :: run_result
  dot_svg :: run_result
  environ :: "string \<Rightarrow> string option"
  schema_rows :: "schema_row list"

text \<open>\<open>main\<close>: the trace and the exit status. An \<open>open\<close> that fails is not caught,
  and ends the process with status 1. \<open>main\<close> calls neither \<open>generate_erd_sql\<close>,
  whose SQL text would reach the database as an \<open>Execute\<close> event, nor
  \<open>generate_dot_content\<close>.\<close>

definition erd_main :: "erd_env \<Rightarrow> event list \<times> int" where
  "erd_main env =
     (let (deps, has_graphviz) = check_dependencies (psycopg2_installed env) (dot_version env);
          checked = Print (wrench @ '' Checking dependencies...'') # deps
      in if \<not> has_graphviz
         then (checked @ [Print (cross_mark @ '' Cannot generate diagrams without Graphviz'')], 1)
         else
           (let started = checked
                  @ [Print (''\<newline>'' @ bar_chart @ '' Generating Entity Relationship Diagram...'')]
            in if \<not> dot_writable env then (started, 1)
               else
                 (let (ev, code) = render_diagrams (dot_png env) (dot_svg env)
                  in (started
                      @ [WriteFile ''schema_diagram.dot'' dot_content,
                         Print (check_mark @ '' Generated schema_diagram.dot'')]
                      @ ev, code))))"

definition files_written :: "event list \<Rightarrow> (string \<times> string) list" where
  "files_written tr = concat (map (\<lambda>e. case e of WriteFile f c \<Rightarrow> [(f, c)] | _ \<Rightarrow> []) tr)"

definition commands_run :: "event list \<Rightarrow> string list list" where
  "commands_run tr = concat (map (\<lambda>e. case e of Run cmd \<Rightarrow> [cmd] | _ \<Rightarrow> []) tr)"

section \<open>Vocabulary of the properties\<close>

text \<open>The descriptions of the report's queries, in the order in which
  \<open>generate_dashboard\<close> runs them.\<close>

definition catalog :: "string list" where
  "catalog =
     [''Active users'', ''Paid subscribers'', ''Current MRR'', ''Conversion rate'',
      ''Plan revenue'', ''User growth'', ''Channel performance'', ''Recent signups'',
      ''Recent upgrades'', ''Recent churn'', ''Projects created'']"

text \<open>The queries that fail on a connection, each with the text of its error.\<close>

definition failure_of :: "(db_error + 'row list) \<Rightarrow> string \<Rightarrow> (string \<times> string) list" where
  "failure_of response description =
     (case response of Inl (DbError e) \<Rightarrow> [(description, e)] | Inr rows \<Rightarrow> [])"

definition failures :: "connection \<Rightarrow> (string \<times> string) list" where
  "failures conn =
     failure_of (active_users_result conn) ''Active users''
     @ failure_of (paid_subs_result conn) ''Paid subscribers''
     @ failure_of (mrr_result conn) ''Current MRR''
     @ failure_of (conversion_result conn) ''Conversion rate''
     @ failure_of (plan_revenue_result conn) ''Plan revenue''
     @ failure_of (growth_data_result conn) ''User growth''
     @ failure_of (channel_data_result conn) ''Channel performance''
     @ failure_of (recent_signups_result conn) ''Recent signups''
     @ failure_of (recent_upgrades_result conn) ''Recent upgrades''
     @ failure_of (recent_churn_result conn) ''Recent churn''
     @ failure_of (projects_created_result conn) ''Projects created''"

text \<open>The line that \<open>execute_query\<close> prints for a failed query.\<close>

definition query_failed_line :: "string \<Rightarrow> string \<Rightarrow> string" where
  "query_failed_line description e =
     cross_mark @ '' Query failed ('' @ description @ ''): '' @ e"

text \<open>The rows of the queries that succeeded can be printed: the plan name and the
  signup channel, on which the loops call a method, are not \<open>NULL\<close>.\<close>

definition rows_renderable :: "connection \<Rightarrow> bool" where
  "rows_renderable conn =
     ((case plan_revenue_result conn of
         Inl e \<Rightarrow> True
       | Inr rows \<Rightarrow> list_all (\<lambda>row. plan row \<noteq> None) rows)
      \<and> (case channel_data_result conn of
            Inl e \<Rightarrow> True
          | Inr rows \<Rightarrow> list_all (\<lambda>row. signup_channel row \<noteq> None) rows))"

text \<open>A text contains the separator \<open>->\<close>.\<close>

fun has_arrow :: "string \<Rightarrow> bool" where
  "has_arrow (c # d # cs) = ((c = CHR ''-'' \<and> d = CHR ''>'') \<or> has_arrow (d # cs))"
| "has_arrow cs = False"

text \<open>The table rows and the relationship rows of the schema data, the node identifiers
  that the table rows declare, whether every table row has details, the node
  declarations of the table rows, and the endpoints of the relationship rows whose name
  has exactly two parts.\<close>

definition table_rows :: "schema_row list \<Rightarrow> schema_row list" where
  "table_rows schema_data = filter (\<lambda>(kind, name, details). kind = ''TABLES'') schema_data"

definition relationship_rows :: "schema_row list \<Rightarrow> schema_row list" where
  "relationship_rows schema_data =
     filter (\<lambda>(kind, name, details). kind = ''RELATIONSHIPS'') schema_data"

definition declared_nodes :: "schema_row list \<Rightarrow> string list" where
  "declared_nodes schema_data = map (\<lambda>(kind, name, details). name) (table_rows schema_data)"

definition details_present :: "schema_row list \<Rightarrow> bool" where
  "details_present schema_data =
     list_all (\<lambda>(kind, name, details). details \<noteq> None) (table_rows schema_data)"

definition node_decls :: "schema_row list \<Rightarrow> string list" where
  "node_decls schema_data =
     concat (map (\<lambda>(kind, name, details).
       (case details of
          None \<Rightarrow> []
        | Some text \<Rightarrow> [node_decl name (replace_char CHR ''\<newline>'' lbr text)]))
       (table_rows schema_data))"

definition edge_endpoints :: "schema_row list \<Rightarrow> (string \<times> string) list" where
  "edge_endpoints schema_data =
     concat (map (\<lambda>(kind, name, details).
       (case split_arrow name of [a, b] \<Rightarrow> [(a, b)] | _ \<Rightarrow> []))
       (relationship_rows schema_data))"

text \<open>Every relationship row names two declared tables, \<open>from->to\<close>, whose names do
  not contain the separator themselves.\<close>

definition relationships_declared :: "schema_row list \<Rightarrow> bool" where
  "relationships_declared schema_data =
     list_all (\<lambda>(kind, name, details).
       list_ex (\<lambda>a. list_ex (\<lambda>b.
         \<not> has_arrow a \<and> \<not> has_arrow b \<and> name = a @ ''->'' @ b)
         (declared_nodes schema_data)) (declared_nodes schema_data))
       (relationship_rows schema_data)"

text \<open>Two connections to state examples with: on the first every query succeeds, with
  zero counts, \<open>NULL\<close> aggregates and no rows, as on empty tables; on the second every
  query fails with the same error.\<close>

definition quiet_connection :: connection where
  "quiet_connection =
     \<lparr>active_users_result = Inr [0], paid_subs_result = Inr [0],
      mrr_result = Inr [None], conversion_result = Inr [None],
      plan_revenue_result = Inr [], growth_data_result = Inr [],
      channel_data_result = Inr [], recent_signups_result = Inr [0],
      recent_upgrades_result = Inr [0], recent_churn_result = Inr [0],
      projects_created_result = Inr [0]\<rparr>"

definition broken_connection :: "string \<Rightarrow> connection" where
  "broken_connection e =
     \<lparr>active_users_result = Inl (DbError e), paid_subs_result = Inl (DbError e),
      mrr_result = Inl (DbError e), conversion_result = Inl (DbError e),
      plan_revenue_result = Inl (DbError e), growth_data_result = Inl (DbError e),
      channel_data_result = Inl (DbError e), recent_signups_result = Inl (DbError e),
      recent_upgrades_result = Inl (DbError e), recent_churn_result = Inl (DbError e),
      projects_created_result = Inl (DbError e)\<rparr>"

text \<open>The six counting metrics: the description of the query and the label of the line.\<close>

definition count_metrics :: "(string \<times> string) list" where
  "count_metrics =
     [(''Active users'', ''Active Users''),
      (''Paid subscribers'', ''Paid Subscribers''),
      (''Recent signups'', ''New Signups''),
      (''Recent upgrades'', ''New Paid Subscriptions''),
      (''Recent churn'', ''Cancelled Subscriptions''),
      (''Projects created'', ''Projects Created'')]"

text \<open>
  The script opens one connection, without autocommit, and does not roll back after an
  error: once a query has failed the transaction is aborted, and the database refuses
  every later query of the run. \<open>transaction_aborts\<close> holds of the connections that
  behave so, and \<open>aborted_connection\<close> is the one on which the first query fails with
  the given error and the others are refused.
\<close>

definition failed_flags :: "connection \<Rightarrow> bool list" where
  "failed_flags conn =
     [isl (active_users_result conn), isl (paid_subs_result conn), isl (mrr_result conn),
      isl (conversion_result conn), isl (plan_revenue_result conn),
      isl (growth_data_result conn), isl (channel_data_result conn),
      isl (recent_signups_result conn), isl (recent_upgrades_result conn),
      isl (recent_churn_result conn), isl (projects_created_result conn)]"

fun aborts_onward :: "bool list \<Rightarrow> bool" where
  "aborts_onward [] = True"
| "aborts_onward (failed # later) =
     (if failed then list_all (\<lambda>f. f) later else aborts_onward later)"

definition transaction_aborts :: "connection \<Rightarrow> bool" where
  "transaction_aborts conn = aborts_onward (failed_flags conn)"

definition in_failed_transaction :: string where
  "in_failed_transaction =
     ''current transaction is aborted, commands ignored until end of transaction block''"

definition aborted_connection :: "string \<Rightarrow> connection" where
  "aborted_connection e =
     \<lparr>active_users_result = Inl (DbError e),
      paid_subs_result = Inl (DbError in_failed_transaction),
      mrr_result = Inl (DbError in_failed_transaction),
      conversion_result = Inl (DbError in_failed_transaction),
      plan_revenue_result = Inl (DbError in_failed_transaction),
      growth_data_result = Inl (DbError in_failed_transaction),
      channel_data_result = Inl (DbError in_failed_transaction),
      recent_signups_result = Inl (DbError in_failed_transaction),
      recent_upgrades_result = Inl (DbError in_failed_transaction),
      recent_churn_result = Inl (DbError in_failed_transaction),
      projects_created_result = Inl (DbError in_failed_transaction)\<rparr>"

section \<open>Formatting\<close>

text \<open>
  Claim C3. The currency formatter maps an absent amount to exactly \<open>$0.00\<close> and the
  amount 1234.5 to exactly \<open>$1,234.50\<close>: a dollar sign, a comma between the
  thousands and two decimals. The formatter is a function of its argument alone, so
  this holds at every call.
\<close>

theorem format_currency_examples:
  "format_currency None = ''$0.00'' \<and> format_currency (Some 1234.5) = ''$1,234.50''"
  by (simp add: format_currency_def format_fixed_def round_half_even_def digit_char_def
      with_commas_def zero_pad_def Let_def)

section \<open>Recurring revenue\<close>

lemma sum_list_the:
  "sum_list (map the (filter (\<lambda>v. v \<noteq> None) vs)) =
     sum_list (map (\<lambda>v. case v of None \<Rightarrow> 0 | Some x \<Rightarrow> (x::rat)) vs)"
  by (induction vs) (simp_all split: option.splits)

lemma value_sql_sum:
  "(case sql_sum vs of None \<Rightarrow> 0 | Some v \<Rightarrow> v) =
     sum_list (map (\<lambda>v. case v of None \<Rightarrow> 0 | Some x \<Rightarrow> x) vs)"
proof (cases "filter (\<lambda>v. v \<noteq> None) vs")
  case Nil
  with sum_list_the [of vs] show ?thesis
    by (simp add: sql_sum_def)
next
  case (Cons w ws)
  with sum_list_the [of vs] show ?thesis
    by (simp add: sql_sum_def)
qed

lemma first_or_zero_single:
  "first_or_zero [r] = (case r of None \<Rightarrow> 0 | Some v \<Rightarrow> v)"
  by (simp add: first_or_zero_def split: option.splits)

text \<open>The value that the report prints is the sum, over the active subscriptions, of
  what the \<open>CASE\<close> expression gives for each, a \<open>NULL\<close> counting as nothing.\<close>

lemma mrr_value_sum:
  "first_or_zero (current_mrr_query subscriptions) =
     sum_list (map (\<lambda>s. case mrr_case s of None \<Rightarrow> 0 | Some x \<Rightarrow> x)
       (filter (\<lambda>s. status s = Some ''active'') subscriptions))"
  by (simp add: current_mrr_query_def first_or_zero_single value_sql_sum comp_def)

text \<open>The rounded quotient is within half a unit of its last place of the exact one,
  and is the exact one when that has no more places; for an amount below \<open>10 ^ 8\<close>, as
  the column holds, it has at least 12 places.\<close>

lemma round_half_away_near: "\<bar>of_int (round_half_away y) - y\<bar> \<le> (1 / 2 :: rat)"
proof (cases "y < 0")
  case True
  then have "(of_int (round_half_away y) :: rat) = - of_int \<lfloor>- y + 1 / 2\<rfloor>"
    by (simp add: round_half_away_def)
  moreover have "of_int \<lfloor>- y + 1 / 2\<rfloor> \<le> - y + 1 / 2"
    by linarith
  moreover have "- y + 1 / 2 < of_int \<lfloor>- y + 1 / 2\<rfloor> + 1"
    by linarith
  ultimately show ?thesis
    by linarith
next
  case False
  then have "(of_int (round_half_away y) :: rat) = of_int \<lfloor>y + 1 / 2\<rfloor>"
    by (simp add: round_half_away_def)
  moreover have "of_int \<lfloor>y + 1 / 2\<rfloor> \<le> y + 1 / 2"
    by linarith
  moreover have "y + 1 / 2 < of_int \<lfloor>y + 1 / 2\<rfloor> + 1"
    by linarith
  ultimately show ?thesis
    by linarith
qed

lemma round_half_away_of_int: "round_half_away (of_int n) = n"
proof -
  have "\<lfloor>(of_int n :: rat) + 1 / 2\<rfloor> = n" "\<lfloor>- (of_int n :: rat) + 1 / 2\<rfloor> = - n"
    by (simp_all add: floor_eq_iff)
  then show ?thesis
    by (simp add: round_half_away_def)
qed

lemma scaled_near:
  fixes k x p :: rat
  assumes "0 < p" and "\<bar>k - x * p\<bar> \<le> 1 / 2"
  shows "\<bar>k / p - x\<bar> \<le> 1 / (2 * p)"
proof -
  from assms(1) have "k / p - x = (k - x * p) / p"
    by (simp add: field_simps)
  then have "\<bar>k / p - x\<bar> = \<bar>k - x * p\<bar> / p"
    using assms(1) by simp
  also from assms have "\<dots> \<le> (1 / 2) / p"
    by (intro divide_right_mono) simp_all
  finally show ?thesis
    by simp
qed

lemma numeric_quotient_near:
  "\<bar>numeric_quotient (a, da) (b, db) - a / b\<bar> \<le> 1 / (2 * 10 ^ select_div_scale (a, da) (b, db))"
proof -
  define r where "r = select_div_scale (a, da) (b, db)"
  define k :: rat where "k = of_int (round_half_away (a / b * 10 ^ r))"
  have "\<bar>k - a / b * 10 ^ r\<bar> \<le> 1 / 2"
    unfolding k_def by (rule round_half_away_near)
  then have "\<bar>k / 10 ^ r - a / b\<bar> \<le> 1 / (2 * 10 ^ r)"
    by (intro scaled_near) simp_all
  moreover have "numeric_quotient (a, da) (b, db) = k / 10 ^ r"
    unfolding numeric_quotient_def Let_def k_def r_def fst_conv ..
  ultimately show ?thesis
    unfolding r_def by simp
qed

lemma numeric_quotient_exact:
  assumes "a / b * 10 ^ select_div_scale (a, da) (b, db) = of_int n"
  shows "numeric_quotient (a, da) (b, db) = a / b"
proof -
  have "numeric_quotient (a, da) (b, db) =
      of_int (round_half_away (of_int n)) / 10 ^ select_div_scale (a, da) (b, db)"
    unfolding numeric_quotient_def Let_def fst_conv assms ..
  also have "\<dots> = a / b * 10 ^ select_div_scale (a, da) (b, db) / 10 ^ select_div_scale (a, da) (b, db)"
    unfolding round_half_away_of_int assms ..
  also have "\<dots> = a / b"
    by simp
  finally show ?thesis .
qed

lemma top_digit_weight:
  assumes "n < 100000000"
  shows "fst (top_digit n) \<le> 1"
proof (cases "n < 10000")
  case True
  then show ?thesis
    by (simp add: top_digit.simps [of n])
next
  case False
  from assms have "n div 10000 < 10000"
    by simp
  then have "top_digit (n div 10000) = (0, n div 10000)"
    by (simp add: top_digit.simps [of "n div 10000"])
  with False show ?thesis
    by (simp add: top_digit.simps [of n])
qed

lemma weight_decimal_10_2:
  assumes "\<bar>a\<bar> < 10 ^ 8"
  shows "fst (weight_and_first_digit (a, 2)) \<le> 1"
proof -
  have "nat \<lfloor>\<bar>a\<bar>\<rfloor> < 100000000"
    using assms by (simp add: floor_less_iff nat_less_iff)
  then have "fst (top_digit (nat \<lfloor>\<bar>a\<bar>\<rfloor>)) \<le> 1"
    by (rule top_digit_weight)
  then show ?thesis
    by (simp add: weight_and_first_digit_def case_prod_beta Let_def)
qed

lemma scale_decimal_10_2:
  assumes "\<bar>a\<bar> < 10 ^ 8"
  shows "12 \<le> select_div_scale (a, 2) (12, 0)"
proof -
  have "weight_and_first_digit (12, 0) = (0, 12)"
    by (simp add: weight_and_first_digit_def top_digit.simps)
  with weight_decimal_10_2 [OF assms] show ?thesis
    by (auto simp: select_div_scale_def case_prod_beta Let_def)
qed

text \<open>
  Claim C1, as amended. In the aggregation of the monthly recurring revenue, an active
  subscription with stored amount \<open>A\<close> contributes \<open>A\<close> unchanged when its billing
  cycle is \<open>monthly\<close>. When it is \<open>annual\<close> it contributes the \<open>NUMERIC\<close> quotient
  of \<open>A\<close> by 12: \<open>A / 12\<close> rounded to the scale the database selects, which is at
  least 12 decimal places for an amount the column can hold. That quotient is within
  half a unit of its last place of \<open>A / 12\<close>, and equal to \<open>A / 12\<close> when
  \<open>A / 12\<close> has no more places than the scale. The monthly total of a table with the
  subscription is the total without it plus the contribution.
\<close>

theorem mrr_contribution:
  assumes "status s = Some ''active''" and "mrr s = Some A"
  shows "(billing_cycle s = Some ''annual'' \<longrightarrow>
            mrr_case s = Some (numeric_quotient (A, 2) (12, 0)) \<and>
            first_or_zero (current_mrr_query (xs @ s # ys)) =
              first_or_zero (current_mrr_query (xs @ ys)) + numeric_quotient (A, 2) (12, 0) \<and>
            \<bar>numeric_quotient (A, 2) (12, 0) - A / 12\<bar>
              \<le> 1 / (2 * 10 ^ select_div_scale (A, 2) (12, 0)) \<and>
            (\<bar>A\<bar> < 10 ^ 8 \<longrightarrow> 12 \<le> select_div_scale (A, 2) (12, 0)) \<and>
            (\<forall>n. A / 12 * 10 ^ select_div_scale (A, 2) (12, 0) = of_int n \<longrightarrow>
               numeric_quotient (A, 2) (12, 0) = A / 12)) \<and>
         (billing_cycle s = Some ''monthly'' \<longrightarrow>
            mrr_case s = Some A \<and>
            first_or_zero (current_mrr_query (xs @ s # ys)) =
              first_or_zero (current_mrr_query (xs @ ys)) + A)"
proof -
  have "\<forall>n. A / 12 * 10 ^ select_div_scale (A, 2) (12, 0) = of_int n \<longrightarrow>
      numeric_quotient (A, 2) (12, 0) = A / 12"
    using numeric_quotient_exact [of A 12 2 0] by blast
  with assms numeric_quotient_near [of A 2 12 0] scale_decimal_10_2 [of A] show ?thesis
    by (simp add: mrr_value_sum mrr_case_def)
qed

lemma quotient_of_100:
  "numeric_quotient (100, 2) (12, 0) = 83333333333333333 / 10 ^ 16"
  by (simp add: numeric_quotient_def select_div_scale_def weight_and_first_digit_def
      round_half_away_def Let_def floor_eq_iff top_digit.simps)

theorem mrr_contribution_witness:
  "status \<lparr>user_id = Some 1, plan_id = Some 2, status = Some ''active'',
      billing_cycle = Some ''annual'', mrr = Some 100\<rparr> = Some ''active'' \<and>
   \<bar>100 :: rat\<bar> < 10 ^ 8 \<and>
   first_or_zero (current_mrr_query
     [\<lparr>user_id = Some 3, plan_id = Some 2, status = Some ''active'',
        billing_cycle = Some ''monthly'', mrr = Some 30\<rparr>,
      \<lparr>user_id = Some 1, plan_id = Some 2, status = Some ''active'',
        billing_cycle = Some ''annual'', mrr = Some 100\<rparr>]) =
   first_or_zero (current_mrr_query
     [\<lparr>user_id = Some 3, plan_id = Some 2, status = Some ''active'',
        billing_cycle = Some ''monthly'', mrr = Some 30\<rparr>]) + 83333333333333333 / 10 ^ 16 \<and>
   12 \<le> select_div_scale (100, 2) (12, 0) \<and>
   120 / 12 * 10 ^ select_div_scale (120, 2) (12, 0) = rat_of_int (10 ^ 17) \<and>
   numeric_quotient (120, 2) (12, 0) = 120 / 12 \<and>
   first_or_zero (current_mrr_query
     [\<lparr>user_id = Some 3, plan_id = Some 2, status = Some ''active'',
        billing_cycle = Some ''monthly'', mrr = Some 30\<rparr>]) =
   first_or_zero (current_mrr_query []) + 30"
proof -
  have s120: "select_div_scale (120, 2) (12, 0) = 16"
    by (simp add: select_div_scale_def weight_and_first_digit_def Let_def top_digit.simps)
  have e: "120 / 12 * 10 ^ select_div_scale (120, 2) (12, 0) = rat_of_int (10 ^ 17)"
    by (simp add: s120)
  have b: "\<bar>100 :: rat\<bar> < 10 ^ 8"
    by simp
  from e b
    mrr_contribution [of "\<lparr>user_id = Some 1, plan_id = Some 2, status = Some ''active'',
        billing_cycle = Some ''annual'', mrr = Some 100\<rparr>" 100
      "[\<lparr>user_id = Some 3, plan_id = Some 2, status = Some ''active'',
          billing_cycle = Some ''monthly'', mrr = Some 30\<rparr>]" "[]"]
    mrr_contribution [of "\<lparr>user_id = Some 4, plan_id = Some 2, status = Some ''active'',
        billing_cycle = Some ''annual'', mrr = Some 120\<rparr>" 120 "[]" "[]"]
    mrr_contribution [of "\<lparr>user_id = Some 3, plan_id = Some 2, status = Some ''active'',
        billing_cycle = Some ''monthly'', mrr = Some 30\<rparr>" 30 "[]" "[]"]
  show ?thesis
    by (simp add: quotient_of_100)
qed

text \<open>
  Claim C1 as stated fails: for an active annual subscription with the amount 100.00
  the query contributes 8.3333333333333333, the quotient rounded to 16 places, which is
  not \<open>100 / 12\<close>; and that is the monthly total of a table holding this
  subscription alone.
\<close>

theorem mrr_annual_quotient_rounded:
  "mrr_case \<lparr>user_id = Some 1, plan_id = Some 2, status = Some ''active'',
      billing_cycle = Some ''annual'', mrr = Some 100\<rparr> = Some (83333333333333333 / 10 ^ 16) \<and>
   mrr_case \<lparr>user_id = Some 1, plan_id = Some 2, status = Some ''active'',
      billing_cycle = Some ''annual'', mrr = Some 100\<rparr> \<noteq> Some (100 / 12) \<and>
   first_or_zero (current_mrr_query [\<lparr>user_id = Some 1, plan_id = Some 2,
      status = Some ''active'', billing_cycle = Some ''annual'', mrr = Some 100\<rparr>]) \<noteq> 100 / 12"
  by (simp add: mrr_value_sum mrr_case_def quotient_of_100)

section \<open>Conversion rate\<close>

lemma conversion_rate_sql_no_error:
  "conversion_rate_sql total_users paid_users =
     Inr (if total_users = 0 then None
          else Some (of_int paid_users * 100 / of_int total_users))"
  by (simp add: conversion_rate_sql_def sql_nullif_def sql_div_def)

lemma zero_rate_line:
  "print_metric ''Free-to-Paid Conversion'' (format_percentage (Some 0)) [] =
     [Print ''  Free-to-Paid Conversion             0.00%'']"
  by code_simp

text \<open>
  Claim C2. When the number of users, the denominator of the free-to-paid conversion
  rate, is zero, the query succeeds with a \<open>NULL\<close> rate and the report prints the rate
  as \<open>0.00%\<close>. The division is guarded by \<open>NULLIF\<close>: whatever the tables hold, the
  query does not end in a division by zero.
\<close>

theorem conversion_zero_users:
  "(fst (conversion_data users subscriptions) = 0 \<longrightarrow>
      conversion_query users subscriptions = Inr [None] \<and>
      format_percentage (Some (first_or_zero [None])) = ''0.00%'' \<and>
      conversion_section (conversion_query users subscriptions) =
        [Execute ''Conversion rate'', Print ''  Free-to-Paid Conversion             0.00%'']) \<and>
   (\<exists>rows. conversion_query users subscriptions = Inr rows)"
proof -
  have a: "format_percentage (Some 0) = ''0.00%''"
    by code_simp
  have b: "conversion_section (Inr [None]) =
        [Execute ''Conversion rate'', Print ''  Free-to-Paid Conversion             0.00%'']"
    by (simp add: conversion_section_def execute_query_def first_or_zero_def zero_rate_line)
  show ?thesis
    by (auto simp: conversion_query_def conversion_rate_sql_no_error a b first_or_zero_def
        split: prod.splits)
qed

theorem conversion_zero_users_witness:
  "fst (conversion_data [] [\<lparr>user_id = Some 7, plan_id = Some 2, status = Some ''active'',
        billing_cycle = Some ''monthly'', mrr = Some 10\<rparr>]) = 0 \<and>
   conversion_section (conversion_query [] [\<lparr>user_id = Some 7, plan_id = Some 2,
        status = Some ''active'', billing_cycle = Some ''monthly'', mrr = Some 10\<rparr>]) =
        [Execute ''Conversion rate'', Print ''  Free-to-Paid Conversion             0.00%'']"
proof -
  have h: "fst (conversion_data [] [\<lparr>user_id = Some 7, plan_id = Some 2,
        status = Some ''active'', billing_cycle = Some ''monthly'', mrr = Some 10\<rparr>]) = 0"
    by (simp add: conversion_data_def left_join_active_def count_distinct_def)
  with conversion_zero_users [of "[]" "[\<lparr>user_id = Some 7, plan_id = Some 2,
        status = Some ''active'', billing_cycle = Some ''monthly'', mrr = Some 10\<rparr>]"]
  show ?thesis by blast
qed

section \<open>The graph description built from schema data\<close>

text \<open>Splitting at the separator: a text without it is one part, and two such
  texts joined by it are split back into the two.\<close>

lemma split_no_arrow: "\<not> has_arrow b \<Longrightarrow> split_arrow_from acc b = [rev acc @ b]"
  by (induction acc b rule: split_arrow_from.induct) auto

lemma split_at_arrow:
  "\<not> has_arrow a \<Longrightarrow> \<not> has_arrow b \<Longrightarrow>
     split_arrow_from acc (a @ ''->'' @ b) = [rev acc @ a, b]"
proof (induction acc a rule: split_arrow_from.induct)
  case (1 acc)
  then show ?case by (simp add: split_no_arrow)
next
  case (2 acc c)
  then show ?case by (simp add: split_no_arrow)
next
  case (3 acc c d cs)
  then show ?case by auto
qed

lemma split_arrow_pair:
  "\<not> has_arrow a \<Longrightarrow> \<not> has_arrow b \<Longrightarrow> split_arrow (a @ ''->'' @ b) = [a, b]"
  using split_at_arrow [of a b "[]"] by (simp add: split_arrow_def)

text \<open>The loop, row by row: it returns the node declarations of the table rows and
  the edges of the relationship rows when every table row has details, and raises
  otherwise.\<close>

lemma dot_step_row:
  "dot_step (ts, rs) row =
     (if details_present [row]
      then Inr (ts @ node_decls [row],
                rs @ map (\<lambda>(a, b). edge_decl a b) (edge_endpoints [row]))
      else Inl (AttributeError ''replace''))"
  by (cases row)
    (simp add: dot_step_def details_present_def node_decls_def table_rows_def
      edge_endpoints_def relationship_rows_def split: list.splits option.splits)

lemma rows_Cons:
  "details_present (row # rows) \<longleftrightarrow> details_present [row] \<and> details_present rows"
  "node_decls (row # rows) = node_decls [row] @ node_decls rows"
  "edge_endpoints (row # rows) = edge_endpoints [row] @ edge_endpoints rows"
  by (simp_all add: details_present_def node_decls_def table_rows_def edge_endpoints_def
      relationship_rows_def)

lemma rows_Nil:
  "details_present []" "node_decls [] = []" "edge_endpoints [] = []"
  by (simp_all add: details_present_def node_decls_def table_rows_def edge_endpoints_def
      relationship_rows_def)

lemma dot_loop_eq:
  "dot_loop (ts, rs) schema_data =
     (if details_present schema_data
      then Inr (ts @ node_decls schema_data,
                rs @ map (\<lambda>(a, b). edge_decl a b) (edge_endpoints schema_data))
      else Inl (AttributeError ''replace''))"
proof (induction schema_data arbitrary: ts rs)
  case Nil
  then show ?case
    by (simp add: rows_Nil)
next
  case (Cons row rows)
  show ?case
  proof (cases "details_present [row]")
    case True
    then show ?thesis
      by (simp add: dot_step_row Cons rows_Cons [of row rows])
  next
    case False
    then show ?thesis
      by (simp add: dot_step_row rows_Cons [of row rows])
  qed
qed

lemma generate_dot_content_eq:
  "generate_dot_content schema_data =
     (if details_present schema_data
      then Inr (dot_prologue @ join ''\<newline>'' (node_decls schema_data) @ dot_middle
                @ join ''\<newline>'' (map (\<lambda>(a, b). edge_decl a b) (edge_endpoints schema_data))
                @ dot_epilogue)
      else Inl (AttributeError ''replace''))"
  by (simp add: generate_dot_content_def dot_lists_def dot_loop_eq)

lemma length_node_decls:
  "details_present schema_data \<Longrightarrow> length (node_decls schema_data) = length (table_rows schema_data)"
proof -
  have "list_all (\<lambda>(kind, name, details). details \<noteq> None) rs \<Longrightarrow>
      length (concat (map (\<lambda>(kind, name, details).
        (case details of
           None \<Rightarrow> []
         | Some text \<Rightarrow> [node_decl name (replace_char CHR ''\<newline>'' lbr text)])) rs)) =
      length rs" for rs :: "schema_row list"
    by (induction rs) auto
  then show "details_present schema_data \<Longrightarrow>
      length (node_decls schema_data) = length (table_rows schema_data)"
    by (simp add: details_present_def node_decls_def)
qed

lemma endpoints_of_declared:
  assumes "list_all (\<lambda>(kind, name, details).
       list_ex (\<lambda>a. list_ex (\<lambda>b.
         \<not> has_arrow a \<and> \<not> has_arrow b \<and> name = a @ ''->'' @ b) ds) ds) rs"
  shows "length (concat (map (\<lambda>(kind, name, details).
            (case split_arrow name of [a, b] \<Rightarrow> [(a, b)] | _ \<Rightarrow> [])) rs)) = length rs \<and>
         (\<forall>(a, b) \<in> set (concat (map (\<lambda>(kind, name, details).
            (case split_arrow name of [a, b] \<Rightarrow> [(a, b)] | _ \<Rightarrow> [])) rs)).
            a \<in> set ds \<and> b \<in> set ds)"
  using assms
proof (induction rs)
  case Nil
  then show ?case by simp
next
  case (Cons row rs)
  obtain kind name details where row: "row = (kind, name, details)"
    by (cases row)
  from Cons.prems row obtain a b where ab: "a \<in> set ds" "b \<in> set ds"
      "\<not> has_arrow a" "\<not> has_arrow b" "name = a @ ''->'' @ b"
    by (auto simp: list_ex_iff)
  from ab(3,4) have "split_arrow (a @ ''->'' @ b) = [a, b]"
    by (rule split_arrow_pair)
  with ab(5) have "split_arrow name = [a, b]"
    by simp
  with Cons ab(1,2) row show ?case
    by simp
qed

text \<open>
  Claim C6, as amended. For schema data in which every table row has details, the
  builder returns the fixed opening, one node declaration for each of the N table
  rows, the fixed middle, one edge for each relationship row whose name splits at
  \<open>->\<close> into exactly two parts, with these parts as its endpoints, and the closing;
  other relationship rows give no edge. When a table row has no details the builder
  raises instead. When every relationship row names two tables of the table rows
  (names without \<open>->\<close>), there are as many edges as relationship rows and the
  endpoints of every edge are declared nodes. The builder itself checks none of this.
\<close>

theorem generate_dot_content_counts:
  "(details_present schema_data \<longrightarrow>
      generate_dot_content schema_data =
        Inr (dot_prologue @ join ''\<newline>'' (node_decls schema_data) @ dot_middle
             @ join ''\<newline>'' (map (\<lambda>(a, b). edge_decl a b) (edge_endpoints schema_data))
             @ dot_epilogue) \<and>
      length (node_decls schema_data) = length (table_rows schema_data)) \<and>
   (\<not> details_present schema_data \<longrightarrow>
      generate_dot_content schema_data = Inl (AttributeError ''replace'')) \<and>
   (relationships_declared schema_data \<longrightarrow>
      length (edge_endpoints schema_data) = length (relationship_rows schema_data) \<and>
      (\<forall>(a, b) \<in> set (edge_endpoints schema_data).
         a \<in> set (declared_nodes schema_data) \<and> b \<in> set (declared_nodes schema_data)))"
  using endpoints_of_declared [of "declared_nodes schema_data" "relationship_rows schema_data"]
  by (simp add: generate_dot_content_eq length_node_decls relationships_declared_def
      edge_endpoints_def)

theorem generate_dot_content_counts_witness:
  "details_present
     [(''TABLES'', ''users'', Some ''id uuid PK''), (''TABLES'', ''projects'', Some ''id uuid PK''),
      (''RELATIONSHIPS'', ''projects->users'', Some ''user_id->id'')] \<and>
   relationships_declared
     [(''TABLES'', ''users'', Some ''id uuid PK''), (''TABLES'', ''projects'', Some ''id uuid PK''),
      (''RELATIONSHIPS'', ''projects->users'', Some ''user_id->id'')] \<and>
   generate_dot_content
     [(''TABLES'', ''users'', Some ''id uuid PK''), (''TABLES'', ''projects'', Some ''id uuid PK''),
      (''RELATIONSHIPS'', ''projects->users'', Some ''user_id->id'')] =
     Inr (dot_prologue
          @ node_decl ''users'' ''id uuid PK'' @ ''\<newline>'' @ node_decl ''projects'' ''id uuid PK''
          @ dot_middle @ ''  projects -> users;'' @ dot_epilogue) \<and>
   edge_endpoints
     [(''TABLES'', ''users'', Some ''id uuid PK''), (''TABLES'', ''projects'', Some ''id uuid PK''),
      (''RELATIONSHIPS'', ''projects->users'', Some ''user_id->id'')] = [(''projects'', ''users'')] \<and>
   declared_nodes
     [(''TABLES'', ''users'', Some ''id uuid PK''), (''TABLES'', ''projects'', Some ''id uuid PK''),
      (''RELATIONSHIPS'', ''projects->users'', Some ''user_id->id'')] = [''users'', ''projects''] \<and>
   \<not> details_present [(''TABLES'', ''users'', None)] \<and>
   generate_dot_content [(''TABLES'', ''users'', None)] = Inl (AttributeError ''replace'')"
proof -
  have p: "details_present
     [(''TABLES'', ''users'', Some ''id uuid PK''), (''TABLES'', ''projects'', Some ''id uuid PK''),
      (''RELATIONSHIPS'', ''projects->users'', Some ''user_id->id'')]"
    by (simp add: details_present_def table_rows_def)
  have h: "relationships_declared
     [(''TABLES'', ''users'', Some ''id uuid PK''), (''TABLES'', ''projects'', Some ''id uuid PK''),
      (''RELATIONSHIPS'', ''projects->users'', Some ''user_id->id'')]"
    by (simp add: relationships_declared_def relationship_rows_def declared_nodes_def
        table_rows_def)
  have e: "edge_endpoints
     [(''TABLES'', ''users'', Some ''id uuid PK''), (''TABLES'', ''projects'', Some ''id uuid PK''),
      (''RELATIONSHIPS'', ''projects->users'', Some ''user_id->id'')] = [(''projects'', ''users'')]"
    by (simp add: edge_endpoints_def relationship_rows_def split_arrow_def)
  have d: "declared_nodes
     [(''TABLES'', ''users'', Some ''id uuid PK''), (''TABLES'', ''projects'', Some ''id uuid PK''),
      (''RELATIONSHIPS'', ''projects->users'', Some ''user_id->id'')] = [''users'', ''projects'']"
    by (simp add: declared_nodes_def table_rows_def)
  have n: "node_decls
     [(''TABLES'', ''users'', Some ''id uuid PK''), (''TABLES'', ''projects'', Some ''id uuid PK''),
      (''RELATIONSHIPS'', ''projects->users'', Some ''user_id->id'')] =
     [node_decl ''users'' ''id uuid PK'', node_decl ''projects'' ''id uuid PK'']"
    by (simp add: node_decls_def table_rows_def replace_char_def)
  have m: "\<not> details_present [(''TABLES'', ''users'', None)]"
    by (simp add: details_present_def table_rows_def)
  from p h e d n m
    generate_dot_content_counts [of
     "[(''TABLES'', ''users'', Some ''id uuid PK''), (''TABLES'', ''projects'', Some ''id uuid PK''),
      (''RELATIONSHIPS'', ''projects->users'', Some ''user_id->id'')]"]
    generate_dot_content_counts [of "[(''TABLES'', ''users'', None)]"]
  show ?thesis
    by (simp add: edge_decl_def)
qed

text \<open>
  Claim C6 as stated fails: a relationship row between tables that no table row declares
  gives an edge whose endpoints are not declared (the text returned has no node at
  all), a relationship row whose name has three parts gives no edge, and a table row
  without details gives no text but an exception.
\<close>

theorem generate_dot_content_unchecked_rows:
  "generate_dot_content [(''RELATIONSHIPS'', ''orders->customers'', Some ''customer_id->id'')] =
     Inr (dot_prologue @ dot_middle @ ''  orders -> customers;'' @ dot_epilogue) \<and>
   declared_nodes [(''RELATIONSHIPS'', ''orders->customers'', Some ''customer_id->id'')] = [] \<and>
   length (relationship_rows [(''RELATIONSHIPS'', ''a->b->c'', Some ''x->y'')]) = 1 \<and>
   generate_dot_content [(''RELATIONSHIPS'', ''a->b->c'', Some ''x->y'')] =
     Inr (dot_prologue @ dot_middle @ dot_epilogue) \<and>
   length (table_rows [(''TABLES'', ''users'', None)]) = 1 \<and>
   generate_dot_content [(''TABLES'', ''users'', None)] = Inl (AttributeError ''replace'')"
  by (simp add: generate_dot_content_def dot_lists_def dot_step_def split_arrow_def
      edge_decl_def declared_nodes_def table_rows_def relationship_rows_def)

section \<open>The report when queries fail\<close>

text \<open>What each section of the report sends to the database, and where it prints the
  line for a failed query.\<close>

lemma executed_append: "executed (xs @ ys) = executed xs @ executed ys"
  by (simp add: executed_def)

lemma executed_Print: "executed (Print s # xs) = executed xs"
  by (simp add: executed_def)

lemma executed_print_header: "executed (print_header t) = []"
  by (simp add: executed_def print_header_def)

lemma executed_print_metric: "executed (print_metric l v u) = []"
  by (simp add: executed_def print_metric_def)

lemma executed_report_footer: "executed report_footer = []"
  by (simp add: executed_def report_footer_def)

lemma execute_query_trace:
  "fst (execute_query response d) =
     Execute d # map (\<lambda>(d', e). Print (query_failed_line d' e)) (failure_of response d)"
  by (simp add: execute_query_def failure_of_def query_failed_line_def
      split: sum.splits db_error.splits)

lemma executed_execute_query: "executed (fst (execute_query response d)) = [d]"
  by (simp add: execute_query_def executed_def split: sum.splits db_error.splits)

lemma failed_in_execute_query:
  "(d', e) \<in> set (failure_of response d) \<Longrightarrow>
     Print (query_failed_line d' e) \<in> set (fst (execute_query response d))"
  by (auto simp: execute_query_trace)

lemma executed_count_metric: "executed (count_metric response d l) = [d]"
  using executed_execute_query [of response d]
  by (simp add: count_metric_def executed_append executed_print_metric case_prod_beta)

lemma failed_in_count_metric:
  "(d', e) \<in> set (failure_of response d) \<Longrightarrow>
     Print (query_failed_line d' e) \<in> set (count_metric response d l)"
  using failed_in_execute_query [of d' e response d]
  by (simp add: count_metric_def case_prod_beta)

lemma executed_mrr_section: "executed (mrr_section response) = [''Current MRR'']"
  using executed_execute_query [of response "''Current MRR''"]
  by (simp add: mrr_section_def executed_append executed_print_metric Let_def case_prod_beta)

lemma failed_in_mrr_section:
  "(d', e) \<in> set (failure_of response ''Current MRR'') \<Longrightarrow>
     Print (query_failed_line d' e) \<in> set (mrr_section response)"
  using failed_in_execute_query [of d' e response "''Current MRR''"]
  by (simp add: mrr_section_def Let_def case_prod_beta)

lemma executed_conversion_section:
  "executed (conversion_section response) = [''Conversion rate'']"
  using executed_execute_query [of response "''Conversion rate''"]
  by (simp add: conversion_section_def executed_append executed_print_metric Let_def
      case_prod_beta)

lemma failed_in_conversion_section:
  "(d', e) \<in> set (failure_of response ''Conversion rate'') \<Longrightarrow>
     Print (query_failed_line d' e) \<in> set (conversion_section response)"
  using failed_in_execute_query [of d' e response "''Conversion rate''"]
  by (simp add: conversion_section_def Let_def case_prod_beta)

lemma executed_growth_loop: "executed (growth_loop rows) = []"
  by (induction rows) (simp_all add: executed_append executed_print_metric, simp add: executed_def)

lemma executed_growth_section: "executed (growth_section response) = [''User growth'']"
  using executed_execute_query [of response "''User growth''"]
  by (simp add: growth_section_def executed_append executed_growth_loop case_prod_beta)

lemma failed_in_growth_section:
  "(d', e) \<in> set (failure_of response ''User growth'') \<Longrightarrow>
     Print (query_failed_line d' e) \<in> set (growth_section response)"
  using failed_in_execute_query [of d' e response "''User growth''"]
  by (simp add: growth_section_def case_prod_beta)

lemma plan_revenue_loop_ok:
  "list_all (\<lambda>row. plan row \<noteq> None) rows \<Longrightarrow>
     snd (plan_revenue_loop rows) = None \<and> executed (fst (plan_revenue_loop rows)) = []"
  by (induction rows)
    (auto simp: executed_append executed_print_metric executed_def [of "[]"] Let_def
      split: prod.splits option.splits)

lemma channel_loop_ok:
  "list_all (\<lambda>row. signup_channel row \<noteq> None) rows \<Longrightarrow>
     snd (channel_loop rows) = None \<and> executed (fst (channel_loop rows)) = []"
  by (induction rows)
    (auto simp: executed_append executed_print_metric executed_def [of "[]"] Let_def
      split: prod.splits option.splits)


lemma plan_revenue_section_ok:
  assumes "case r of Inl e \<Rightarrow> True | Inr rows \<Rightarrow> list_all (\<lambda>row. plan row \<noteq> None) rows"
  shows "snd (plan_revenue_section r) = None \<and>
         executed (fst (plan_revenue_section r)) = [''Plan revenue'']"
proof (cases r)
  case (Inl err)
  then show ?thesis
    by (cases err) (simp add: plan_revenue_section_def execute_query_def executed_def)
next
  case (Inr rows)
  with assms plan_revenue_loop_ok [of rows] show ?thesis
    by (simp add: plan_revenue_section_def execute_query_def case_prod_beta executed_append)
      (simp add: executed_def)
qed

lemma channel_section_ok:
  assumes "case r of Inl e \<Rightarrow> True
           | Inr rows \<Rightarrow> list_all (\<lambda>row. signup_channel row \<noteq> None) rows"
  shows "snd (channel_section r) = None \<and>
         executed (fst (channel_section r)) = [''Channel performance'']"
proof (cases r)
  case (Inl err)
  then show ?thesis
    by (cases err) (simp add: channel_section_def execute_query_def executed_def)
next
  case (Inr rows)
  with assms channel_loop_ok [of rows] show ?thesis
    by (simp add: channel_section_def execute_query_def case_prod_beta executed_append)
      (simp add: executed_def)
qed

lemma failed_in_plan_revenue_section:
  "(d', e) \<in> set (failure_of response ''Plan revenue'') \<Longrightarrow>
     Print (query_failed_line d' e) \<in> set (fst (plan_revenue_section response))"
  using failed_in_execute_query [of d' e response "''Plan revenue''"]
  by (simp add: plan_revenue_section_def case_prod_beta)

lemma failed_in_channel_section:
  "(d', e) \<in> set (failure_of response ''Channel performance'') \<Longrightarrow>
     Print (query_failed_line d' e) \<in> set (fst (channel_section response))"
  using failed_in_execute_query [of d' e response "''Channel performance''"]
  by (simp add: channel_section_def case_prod_beta)

lemma report_body_renderable:
  assumes "rows_renderable conn"
  shows "report_body conn =
     (print_header ''Key Metrics Overview''
      @ count_metric (active_users_result conn) ''Active users'' ''Active Users''
      @ count_metric (paid_subs_result conn) ''Paid subscribers'' ''Paid Subscribers''
      @ mrr_section (mrr_result conn)
      @ conversion_section (conversion_result conn)
      @ print_header ''Revenue by Plan (Last 30 Days)''
      @ fst (plan_revenue_section (plan_revenue_result conn))
      @ print_header ''User Growth (Last 6 Months)''
      @ growth_section (growth_data_result conn)
      @ print_header ''Top Performing Acquisition Channels''
      @ fst (channel_section (channel_data_result conn))
      @ print_header ''Recent Activity (Last 7 Days)''
      @ count_metric (recent_signups_result conn) ''Recent signups'' ''New Signups''
      @ count_metric (recent_upgrades_result conn) ''Recent upgrades'' ''New Paid Subscriptions''
      @ count_metric (recent_churn_result conn) ''Recent churn'' ''Cancelled Subscriptions''
      @ count_metric (projects_created_result conn) ''Projects created'' ''Projects Created'',
      None)"
proof -
  from assms have "snd (plan_revenue_section (plan_revenue_result conn)) = None"
    by (simp add: rows_renderable_def plan_revenue_section_ok)
  then obtain pe where pe: "plan_revenue_section (plan_revenue_result conn) = (pe, None)"
    by (cases "plan_revenue_section (plan_revenue_result conn)") simp
  from assms have "snd (channel_section (channel_data_result conn)) = None"
    by (simp add: rows_renderable_def channel_section_ok)
  then obtain ce where ce: "channel_section (channel_data_result conn) = (ce, None)"
    by (cases "channel_section (channel_data_result conn)") simp
  show ?thesis
    by (simp add: report_body_def pe ce)
qed

lemma dashboard_main_renderable:
  assumes "rows_renderable conn"
  shows "dashboard_main True now (Inr conn) =
     ([Print (rocket @ '' SaaS Analytics Dashboard''), Print (''Generated at: '' @ now)]
      @ fst (report_body conn) @ report_footer, 0)"
  using report_body_renderable [OF assms]
  by (simp add: dashboard_main_def generate_dashboard_def connect_db_def)

lemma executed_report_body:
  assumes "rows_renderable conn"
  shows "executed (fst (report_body conn)) = catalog"
  using assms
  by (simp add: report_body_renderable [OF assms] executed_append executed_print_header
      executed_count_metric executed_mrr_section executed_conversion_section
      executed_growth_section plan_revenue_section_ok channel_section_ok
      rows_renderable_def catalog_def)

lemma failures_in_report_body:
  assumes "rows_renderable conn" and "(d, e) \<in> set (failures conn)"
  shows "Print (query_failed_line d e) \<in> set (fst (report_body conn))"
  using assms(2)
  by (auto simp: report_body_renderable [OF assms(1)] failures_def
      dest: failed_in_count_metric failed_in_mrr_section failed_in_conversion_section
        failed_in_growth_section failed_in_plan_revenue_section failed_in_channel_section)

text \<open>
  Claim C4. On a connection whose successful queries return printable rows, whichever
  queries fail, the report runs every query of the catalog, in order; for every query
  that fails it prints the line that names the query and its error; and it goes on to
  its last lines. A failing query does not end the report, and the queries after it
  still run.
\<close>

theorem failed_query_does_not_abort:
  assumes "rows_renderable conn"
  shows "executed (fst (dashboard_main True now (Inr conn))) = catalog \<and>
         (\<forall>(d, e) \<in> set (failures conn).
            Print (query_failed_line d e) \<in> set (fst (dashboard_main True now (Inr conn)))) \<and>
         (\<exists>ev. fst (dashboard_main True now (Inr conn)) = ev @ report_footer)"
proof -
  have "executed (fst (dashboard_main True now (Inr conn))) = catalog"
    by (simp add: dashboard_main_renderable [OF assms] executed_append executed_Print
        executed_report_body [OF assms] executed_report_footer)
  moreover have "\<forall>(d, e) \<in> set (failures conn).
      Print (query_failed_line d e) \<in> set (fst (dashboard_main True now (Inr conn)))"
    using failures_in_report_body [OF assms]
    by (auto simp: dashboard_main_renderable [OF assms])
  moreover have "\<exists>ev. fst (dashboard_main True now (Inr conn)) = ev @ report_footer"
    by (simp add: dashboard_main_renderable [OF assms])
  ultimately show ?thesis
    by blast
qed


theorem failed_query_does_not_abort_witness:
  "rows_renderable (quiet_connection
      \<lparr>active_users_result := Inl (DbError ''relation users does not exist''),
       plan_revenue_result := Inr [\<lparr>plan = Some ''pro'', transactions = 3, revenue = Some 87\<rparr>]\<rparr>) \<and>
   executed (fst (dashboard_main True ''2025-06-01 09:30:00'' (Inr (quiet_connection
      \<lparr>active_users_result := Inl (DbError ''relation users does not exist''),
       plan_revenue_result := Inr [\<lparr>plan = Some ''pro'', transactions = 3, revenue = Some 87\<rparr>]\<rparr>)))) =
     catalog \<and>
   Print (query_failed_line ''Active users'' ''relation users does not exist'')
     \<in> set (fst (dashboard_main True ''2025-06-01 09:30:00'' (Inr (quiet_connection
      \<lparr>active_users_result := Inl (DbError ''relation users does not exist''),
       plan_revenue_result := Inr [\<lparr>plan = Some ''pro'', transactions = 3, revenue = Some 87\<rparr>]\<rparr>))))"
proof -
  have h: "rows_renderable (quiet_connection
      \<lparr>active_users_result := Inl (DbError ''relation users does not exist''),
       plan_revenue_result := Inr [\<lparr>plan = Some ''pro'', transactions = 3, revenue = Some 87\<rparr>]\<rparr>)"
    by (simp add: rows_renderable_def quiet_connection_def)
  have f: "(''Active users'', ''relation users does not exist'') \<in> set (failures (quiet_connection
      \<lparr>active_users_result := Inl (DbError ''relation users does not exist''),
       plan_revenue_result := Inr [\<lparr>plan = Some ''pro'', transactions = 3, revenue = Some 87\<rparr>]\<rparr>))"
    by (simp add: failures_def failure_of_def quiet_connection_def)
  from h f failed_query_does_not_abort [OF h, of "''2025-06-01 09:30:00''"]
  show ?thesis
    by blast
qed

lemma length_failure_of: "length (failure_of response d) \<le> 1"
  by (simp add: failure_of_def split: sum.splits db_error.splits)

lemma failure_of_renderable:
  "length (failure_of response d) = 1 \<Longrightarrow> (case response of Inl e \<Rightarrow> True | Inr rows \<Rightarrow> P rows)"
  by (simp add: failure_of_def split: sum.splits db_error.splits)

lemma all_failed_renderable:
  assumes "length (failures conn) = length catalog"
  shows "rows_renderable conn"
proof -
  note le = length_failure_of [of "active_users_result conn" "''Active users''"]
    length_failure_of [of "paid_subs_result conn" "''Paid subscribers''"]
    length_failure_of [of "mrr_result conn" "''Current MRR''"]
    length_failure_of [of "conversion_result conn" "''Conversion rate''"]
    length_failure_of [of "plan_revenue_result conn" "''Plan revenue''"]
    length_failure_of [of "growth_data_result conn" "''User growth''"]
    length_failure_of [of "channel_data_result conn" "''Channel performance''"]
    length_failure_of [of "recent_signups_result conn" "''Recent signups''"]
    length_failure_of [of "recent_upgrades_result conn" "''Recent upgrades''"]
    length_failure_of [of "recent_churn_result conn" "''Recent churn''"]
    length_failure_of [of "projects_created_result conn" "''Projects created''"]
  from assms have "length (failure_of (active_users_result conn) ''Active users'')
     + length (failure_of (paid_subs_result conn) ''Paid subscribers'')
     + length (failure_of (mrr_result conn) ''Current MRR'')
     + length (failure_of (conversion_result conn) ''Conversion rate'')
     + length (failure_of (plan_revenue_result conn) ''Plan revenue'')
     + length (failure_of (growth_data_result conn) ''User growth'')
     + length (failure_of (channel_data_result conn) ''Channel performance'')
     + length (failure_of (recent_signups_result conn) ''Recent signups'')
     + length (failure_of (recent_upgrades_result conn) ''Recent upgrades'')
     + length (failure_of (recent_churn_result conn) ''Recent churn'')
     + length (failure_of (projects_created_result conn) ''Projects created'') = 11"
    by (simp add: failures_def catalog_def)
  with le have "length (failure_of (plan_revenue_result conn) ''Plan revenue'') = 1"
    and "length (failure_of (channel_data_result conn) ''Channel performance'') = 1"
    by linarith+
  then show ?thesis
    by (simp add: rows_renderable_def failure_of_renderable)
qed

text \<open>
  Claim C5. The exit status of the report is 0 whichever queries fail: on every
  connection whose successful queries return printable rows, and in particular when
  every query of the catalog fails, in which case the run reaches the last lines of
  the report and ends with status 0. In general, a run in which \<open>generate_dashboard\<close>
  returns ends with status 0.
\<close>

theorem exit_code_ignores_query_failures:
  "(rows_renderable conn \<longrightarrow> snd (dashboard_main True now (Inr conn)) = 0) \<and>
   (length (failures conn) = length catalog \<longrightarrow>
      snd (dashboard_main True now (Inr conn)) = 0 \<and>
      (\<exists>ev. fst (dashboard_main True now (Inr conn)) = ev @ report_footer)) \<and>
   (snd (generate_dashboard now (Inr conn)) = Returned \<longrightarrow>
      snd (dashboard_main True now (Inr conn)) = 0)"
proof -
  have "snd (generate_dashboard now (Inr conn)) = Returned \<Longrightarrow>
      snd (dashboard_main True now (Inr conn)) = 0"
    by (cases "generate_dashboard now (Inr conn)") (simp add: dashboard_main_def)
  with dashboard_main_renderable [of conn now] all_failed_renderable [of conn]
  show ?thesis
    by auto
qed

theorem exit_code_ignores_query_failures_witness:
  "length (failures (broken_connection ''server closed the connection unexpectedly'')) =
     length catalog \<and>
   rows_renderable (broken_connection ''server closed the connection unexpectedly'') \<and>
   snd (dashboard_main True ''2025-06-01 09:30:00''
          (Inr (broken_connection ''server closed the connection unexpectedly''))) = 0"
proof -
  have h: "length (failures (broken_connection ''server closed the connection unexpectedly'')) =
     length catalog"
    by (simp add: failures_def failure_of_def broken_connection_def catalog_def)
  have r: "rows_renderable (broken_connection ''server closed the connection unexpectedly'')"
    by (simp add: rows_renderable_def broken_connection_def)
  from h r exit_code_ignores_query_failures
    [of "broken_connection ''server closed the connection unexpectedly''"
      "''2025-06-01 09:30:00''"]
  show ?thesis
    by blast
qed


lemma format_number_zero: "format_number (Some 0) = ''0''"
  by (simp add: format_number_def format_int_grouped_def with_commas_def digit_char_def)

lemma count_metric_failed:
  "count_metric (Inl (DbError e)) d label =
     [Execute d, Print (query_failed_line d e), Print (''  '' @ ljust 35 label @ '' 0'')]"
  by (simp add: count_metric_def execute_query_def query_failed_line_def print_metric_def
      format_number_zero)

lemma count_metric_zero:
  "count_metric (Inr (0 # rows)) d label =
     [Execute d, Print (''  '' @ ljust 35 label @ '' 0'')]"
  by (simp add: count_metric_def execute_query_def print_metric_def format_number_zero)

lemma failure_of_iff:
  "(d, e) \<in> set (failure_of response d') \<longleftrightarrow> d = d' \<and> response = Inl (DbError e)"
  by (auto simp: failure_of_def split: sum.splits db_error.splits)

lemma stdout_append: "stdout (xs @ ys) = stdout xs @ stdout ys"
  by (simp add: stdout_def)

text \<open>The trace of a run is the sequence of its parts, so each part lies in it as one
  piece.\<close>

lemma in_concat:
  "seg \<in> set segs \<Longrightarrow> \<exists>pre post. concat segs = pre @ seg @ post"
proof -
  assume "seg \<in> set segs"
  then obtain before after where "segs = before @ seg # after"
    by (auto dest: split_list)
  then have "concat segs = concat before @ seg @ concat after"
    by simp
  then show ?thesis
    by blast
qed

lemma dashboard_main_parts:
  assumes "rows_renderable conn"
  shows "fst (dashboard_main True now (Inr conn)) =
     concat
       [[Print (rocket @ '' SaaS Analytics Dashboard''), Print (''Generated at: '' @ now)],
        print_header ''Key Metrics Overview'',
        count_metric (active_users_result conn) ''Active users'' ''Active Users'',
        count_metric (paid_subs_result conn) ''Paid subscribers'' ''Paid Subscribers'',
        mrr_section (mrr_result conn),
        conversion_section (conversion_result conn),
        print_header ''Revenue by Plan (Last 30 Days)'',
        fst (plan_revenue_section (plan_revenue_result conn)),
        print_header ''User Growth (Last 6 Months)'',
        growth_section (growth_data_result conn),
        print_header ''Top Performing Acquisition Channels'',
        fst (channel_section (channel_data_result conn)),
        print_header ''Recent Activity (Last 7 Days)'',
        count_metric (recent_signups_result conn) ''Recent signups'' ''New Signups'',
        count_metric (recent_upgrades_result conn) ''Recent upgrades'' ''New Paid Subscriptions'',
        count_metric (recent_churn_result conn) ''Recent churn'' ''Cancelled Subscriptions'',
        count_metric (projects_created_result conn) ''Projects created'' ''Projects Created'',
        report_footer]"
  by (simp add: dashboard_main_renderable [OF assms] report_body_renderable [OF assms])

lemma failed_count_in_trace:
  assumes "rows_renderable conn" and "(d, label) \<in> set count_metrics"
    and "(d, e) \<in> set (failures conn)"
  shows "\<exists>pre post. fst (dashboard_main True now (Inr conn)) =
      pre @ [Execute d, Print (query_failed_line d e), Print (''  '' @ ljust 35 label @ '' 0'')]
      @ post"
proof -
  from assms(2,3)
  have "[Execute d, Print (query_failed_line d e), Print (''  '' @ ljust 35 label @ '' 0'')]
      \<in> {count_metric (active_users_result conn) ''Active users'' ''Active Users'',
          count_metric (paid_subs_result conn) ''Paid subscribers'' ''Paid Subscribers'',
          count_metric (recent_signups_result conn) ''Recent signups'' ''New Signups'',
          count_metric (recent_upgrades_result conn) ''Recent upgrades''
            ''New Paid Subscriptions'',
          count_metric (recent_churn_result conn) ''Recent churn'' ''Cancelled Subscriptions'',
          count_metric (projects_created_result conn) ''Projects created''
            ''Projects Created''}"
    by (auto simp: failures_def count_metrics_def failure_of_iff count_metric_failed)
  then show ?thesis
    unfolding dashboard_main_parts [OF assms(1)]
    by (intro in_concat) auto
qed

lemma failed_count_on_stdout:
  assumes "rows_renderable conn" and "(d, label) \<in> set count_metrics"
    and "(d, e) \<in> set (failures conn)"
  shows "\<exists>pre post. stdout (fst (dashboard_main True now (Inr conn))) =
      pre @ [query_failed_line d e, ''  '' @ ljust 35 label @ '' 0''] @ post"
proof -
  from failed_count_in_trace [OF assms] obtain pre post where
    "fst (dashboard_main True now (Inr conn)) =
      pre @ [Execute d, Print (query_failed_line d e), Print (''  '' @ ljust 35 label @ '' 0'')]
      @ post"
    by blast
  then have "stdout (fst (dashboard_main True now (Inr conn))) =
      stdout pre @ [query_failed_line d e, ''  '' @ ljust 35 label @ '' 0''] @ stdout post"
    by (simp add: stdout_append) (simp add: stdout_def)
  then show ?thesis
    by blast
qed

text \<open>
  Claim C10, as amended. When the query of a counting metric fails, the report still
  prints the metric's line, with the value \<open>0\<close>, rather than leaving the line out or
  raising; the line is the one printed for a count of zero. The failure is not hidden
  on standard output, though: directly before the metric's line stands the line that
  names the failed query and its error. This holds in every run whose successful
  queries return printable rows, whichever other queries fail, so also when a failed
  query makes all the later ones fail.
\<close>

theorem failed_count_prints_zero:
  "stdout (count_metric (Inl (DbError e)) d label) =
     [query_failed_line d e, ''  '' @ ljust 35 label @ '' 0''] \<and>
   stdout (count_metric (Inr [0]) d label) = [''  '' @ ljust 35 label @ '' 0''] \<and>
   (rows_renderable conn \<longrightarrow>
      (\<forall>(d', label') \<in> set count_metrics.
         (d', e) \<in> set (failures conn) \<longrightarrow>
           (\<exists>pre post. fst (dashboard_main True now (Inr conn)) =
              pre @ [Execute d', Print (query_failed_line d' e),
                     Print (''  '' @ ljust 35 label' @ '' 0'')] @ post) \<and>
           (\<exists>pre post. stdout (fst (dashboard_main True now (Inr conn))) =
              pre @ [query_failed_line d' e, ''  '' @ ljust 35 label' @ '' 0''] @ post)))"
proof -
  have "stdout (count_metric (Inl (DbError e)) d label) =
     [query_failed_line d e, ''  '' @ ljust 35 label @ '' 0'']"
    and "stdout (count_metric (Inr [0]) d label) = [''  '' @ ljust 35 label @ '' 0'']"
    by (simp_all add: count_metric_failed count_metric_zero stdout_def)
  with failed_count_in_trace [of conn _ _ e now] failed_count_on_stdout [of conn _ _ e now]
  show ?thesis
    by blast
qed

theorem failed_count_prints_zero_witness:
  "rows_renderable (aborted_connection ''relation users does not exist'') \<and>
   transaction_aborts (aborted_connection ''relation users does not exist'') \<and>
   (''Active users'', ''Active Users'') \<in> set count_metrics \<and>
   (''Active users'', ''relation users does not exist'')
     \<in> set (failures (aborted_connection ''relation users does not exist'')) \<and>
   (\<exists>pre post. stdout (fst (dashboard_main True ''2025-06-01 09:30:00''
        (Inr (aborted_connection ''relation users does not exist'')))) =
      pre @ [query_failed_line ''Active users'' ''relation users does not exist'',
             ''  Active Users                        0''] @ post)"
proof -
  have h: "rows_renderable (aborted_connection ''relation users does not exist'')"
    by (simp add: rows_renderable_def aborted_connection_def)
  have t: "transaction_aborts (aborted_connection ''relation users does not exist'')"
    by (simp add: transaction_aborts_def failed_flags_def aborted_connection_def)
  have m: "(''Active users'', ''Active Users'') \<in> set count_metrics"
    by (simp add: count_metrics_def)
  have f: "(''Active users'', ''relation users does not exist'')
     \<in> set (failures (aborted_connection ''relation users does not exist''))"
    by (simp add: failures_def failure_of_def aborted_connection_def)
  have l: "''  '' @ ljust 35 ''Active Users'' @ '' 0'' = ''  Active Users                        0''"
    by code_simp
  from failed_count_prints_zero [of "''relation users does not exist''" "''Active users''"
      "''Active Users''" "aborted_connection ''relation users does not exist''"
      "''2025-06-01 09:30:00''"] h m f
  have "\<exists>pre post. stdout (fst (dashboard_main True ''2025-06-01 09:30:00''
        (Inr (aborted_connection ''relation users does not exist'')))) =
      pre @ [query_failed_line ''Active users'' ''relation users does not exist'',
             ''  '' @ ljust 35 ''Active Users'' @ '' 0''] @ post"
    by blast
  with h t m f show ?thesis
    unfolding l by blast
qed

text \<open>
  Claim C10 as stated fails, on connections that abort the transaction as the database
  does. When the last query of the report, the count of projects, fails, the standard
  output of the run is not that of the run in which it counts zero projects, all else
  being equal; and when the first query fails, so that every query fails, the standard
  output is not that of the run on empty tables, in which every count is zero.
\<close>

theorem failed_count_visible_on_stdout:
  "transaction_aborts (quiet_connection
      \<lparr>projects_created_result := Inl (DbError ''relation projects does not exist'')\<rparr>) \<and>
   stdout (fst (dashboard_main True ''2025-06-01 09:30:00'' (Inr (quiet_connection
      \<lparr>projects_created_result := Inl (DbError ''relation projects does not exist'')\<rparr>)))) \<noteq>
   stdout (fst (dashboard_main True ''2025-06-01 09:30:00'' (Inr quiet_connection))) \<and>
   transaction_aborts (aborted_connection ''relation users does not exist'') \<and>
   stdout (fst (dashboard_main True ''2025-06-01 09:30:00''
      (Inr (aborted_connection ''relation users does not exist'')))) \<noteq>
   stdout (fst (dashboard_main True ''2025-06-01 09:30:00'' (Inr quiet_connection)))"
proof -
  have h: "rows_renderable (quiet_connection
      \<lparr>projects_created_result := Inl (DbError ''relation projects does not exist'')\<rparr>)"
    by (simp add: rows_renderable_def quiet_connection_def)
  have h': "rows_renderable quiet_connection"
    by (simp add: rows_renderable_def quiet_connection_def)
  have h'': "rows_renderable (aborted_connection ''relation users does not exist'')"
    by (simp add: rows_renderable_def aborted_connection_def)
  have t: "transaction_aborts (quiet_connection
      \<lparr>projects_created_result := Inl (DbError ''relation projects does not exist'')\<rparr>)"
    by (simp add: transaction_aborts_def failed_flags_def quiet_connection_def)
  have t': "transaction_aborts (aborted_connection ''relation users does not exist'')"
    by (simp add: transaction_aborts_def failed_flags_def aborted_connection_def)
  have "length (stdout (fst (dashboard_main True ''2025-06-01 09:30:00'' (Inr (quiet_connection
      \<lparr>projects_created_result := Inl (DbError ''relation projects does not exist'')\<rparr>))))) \<noteq>
   length (stdout (fst (dashboard_main True ''2025-06-01 09:30:00'' (Inr quiet_connection))))"
    unfolding dashboard_main_renderable [OF h] dashboard_main_renderable [OF h']
      report_body_renderable [OF h] report_body_renderable [OF h'] fst_conv stdout_append
    by (simp add: quiet_connection_def count_metric_failed count_metric_zero)
      (simp add: stdout_def)
  then have a: "stdout (fst (dashboard_main True ''2025-06-01 09:30:00'' (Inr (quiet_connection
      \<lparr>projects_created_result := Inl (DbError ''relation projects does not exist'')\<rparr>)))) \<noteq>
   stdout (fst (dashboard_main True ''2025-06-01 09:30:00'' (Inr quiet_connection)))"
    by metis
  have "length (stdout (fst (dashboard_main True ''2025-06-01 09:30:00''
      (Inr (aborted_connection ''relation users does not exist''))))) \<noteq>
   length (stdout (fst (dashboard_main True ''2025-06-01 09:30:00'' (Inr quiet_connection))))"
    unfolding dashboard_main_renderable [OF h''] dashboard_main_renderable [OF h']
      report_body_renderable [OF h''] report_body_renderable [OF h'] fst_conv stdout_append
    by (simp add: quiet_connection_def aborted_connection_def count_metric_failed
        count_metric_zero mrr_section_def conversion_section_def plan_revenue_section_def
        growth_section_def channel_section_def execute_query_def print_metric_def
        Let_def)
      (simp add: stdout_def)
  then have b: "stdout (fst (dashboard_main True ''2025-06-01 09:30:00''
      (Inr (aborted_connection ''relation users does not exist'')))) \<noteq>
   stdout (fst (dashboard_main True ''2025-06-01 09:30:00'' (Inr quiet_connection)))"
    by metis
  from t a t' b show ?thesis
    by blast
qed

section \<open>The diagram script\<close>

lemma check_dependencies_missing:
  assumes "version_query \<noteq> Completed 0"
  shows "snd (check_dependencies found version_query) = False"
    and "Print graphviz_hint \<in> set (fst (check_dependencies found version_query))"
    and "files_written (fst (check_dependencies found version_query)) = []"
    and "commands_run (fst (check_dependencies found version_query)) = [[''dot'', ''-V'']]"
  using assms
  by (auto simp: check_dependencies_def files_written_def commands_run_def Let_def
      split: run_result.splits)

text \<open>
  Claim C8. When the renderer is not found, or its version query ends with a status
  other than zero, the diagram script prints the installation hint and ends with exit
  status 1, having started no command but the version query and written no file: the
  images are not produced, nor is the graph description.
\<close>

theorem missing_renderer_exits:
  assumes "dot_version env \<noteq> Completed 0"
  shows "snd (erd_main env) = 1 \<and>
         Print graphviz_hint \<in> set (fst (erd_main env)) \<and>
         files_written (fst (erd_main env)) = [] \<and>
         commands_run (fst (erd_main env)) = [[''dot'', ''-V'']]"
  using check_dependencies_missing [OF assms, of "psycopg2_installed env"]
  by (simp add: erd_main_def case_prod_beta files_written_def commands_run_def)

theorem missing_renderer_exits_witness:
  "dot_version \<lparr>psycopg2_installed = True, dot_version = FileNotFound, dot_writable = True,
       dot_png = FileNotFound, dot_svg = FileNotFound, environ = (\<lambda>v. None),
       schema_rows = []\<rparr> \<noteq> Completed 0 \<and>
   snd (erd_main \<lparr>psycopg2_installed = True, dot_version = FileNotFound, dot_writable = True,
       dot_png = FileNotFound, dot_svg = FileNotFound, environ = (\<lambda>v. None),
       schema_rows = []\<rparr>) = 1 \<and>
   files_written (fst (erd_main \<lparr>psycopg2_installed = True, dot_version = FileNotFound,
       dot_writable = True, dot_png = FileNotFound, dot_svg = FileNotFound,
       environ = (\<lambda>v. None), schema_rows = []\<rparr>)) = []"
  using missing_renderer_exits [of "\<lparr>psycopg2_installed = True, dot_version = FileNotFound,
       dot_writable = True, dot_png = FileNotFound, dot_svg = FileNotFound,
       environ = (\<lambda>v. None), schema_rows = []\<rparr>"]
  by simp

lemma check_dependencies_found:
  "files_written (fst (check_dependencies found version_query)) = []"
  "executed (fst (check_dependencies found version_query)) = []"
  by (auto simp: check_dependencies_def files_written_def executed_def Let_def
      split: run_result.splits)

lemma render_diagrams_quiet:
  "files_written (fst (render_diagrams png svg)) = []"
  "executed (fst (render_diagrams png svg)) = []"
  by (auto simp: render_diagrams_def render_failed_def files_written_def executed_def
      split: run_result.splits)

lemma files_written_append: "files_written (xs @ ys) = files_written xs @ files_written ys"
  by (simp add: files_written_def)

lemma files_written_Cons:
  "files_written (Print s # xs) = files_written xs"
  "files_written (WriteFile f c # xs) = (f, c) # files_written xs"
  "files_written [] = []"
  by (simp_all add: files_written_def)

lemma executed_erd_Cons:
  "executed (Print s # xs) = executed xs"
  "executed (WriteFile f c # xs) = executed xs"
  "executed [] = []"
  by (simp_all add: executed_def)

lemma erd_main_trace:
  assumes "snd (erd_main env) = 0"
  shows "fst (erd_main env) =
     Print (wrench @ '' Checking dependencies...'')
     # fst (check_dependencies (psycopg2_installed env) (dot_version env))
     @ [Print (''\<newline>'' @ bar_chart @ '' Generating Entity Relationship Diagram...''),
        WriteFile ''schema_diagram.dot'' dot_content,
        Print (check_mark @ '' Generated schema_diagram.dot'')]
     @ fst (render_diagrams (dot_png env) (dot_svg env))"
  using assms
  by (auto simp: erd_main_def case_prod_beta Let_def split: if_splits)

lemma erd_main_success:
  assumes "snd (erd_main env) = 0"
  shows "files_written (fst (erd_main env)) = [(''schema_diagram.dot'', dot_content)]"
    and "executed (fst (erd_main env)) = []"
  by (simp_all add: erd_main_trace [OF assms] files_written_append files_written_Cons
      executed_append executed_erd_Cons check_dependencies_found render_diagrams_quiet)

text \<open>
  Claim C9. Every run of the diagram script that ends with status 0 writes one file,
  \<open>schema_diagram.dot\<close>, holding the fixed text \<open>dot_content\<close>: two such runs write
  the same bytes, whatever the environment variables and the schema in the database,
  which \<open>main\<close> does not read. No query is sent to the database, and the text built
  by \<open>generate_dot_content\<close> takes no part in what is written.
\<close>

theorem diagram_text_is_fixed:
  assumes "snd (erd_main env) = 0" and "snd (erd_main env') = 0"
  shows "files_written (fst (erd_main env)) = [(''schema_diagram.dot'', dot_content)] \<and>
         files_written (fst (erd_main env')) = files_written (fst (erd_main env)) \<and>
         executed (fst (erd_main env)) = []"
  using erd_main_success [OF assms(1)] erd_main_success(1) [OF assms(2)]
  by simp


theorem diagram_text_is_fixed_witness:
  "snd (erd_main \<lparr>psycopg2_installed = True, dot_version = Completed 0, dot_writable = True,
       dot_png = Completed 0, dot_svg = Completed 0,
       environ = (\<lambda>v. if v = ''PGHOST'' then Some ''db.internal'' else None),
       schema_rows = [(''TABLES'', ''invoices'', Some ''id uuid PK'')]\<rparr>) = 0 \<and>
   snd (erd_main \<lparr>psycopg2_installed = False, dot_version = Completed 0, dot_writable = True,
       dot_png = Completed 0, dot_svg = Completed 0, environ = (\<lambda>v. None),
       schema_rows = []\<rparr>) = 0 \<and>
   files_written (fst (erd_main \<lparr>psycopg2_installed = False, dot_version = Completed 0,
       dot_writable = True, dot_png = Completed 0, dot_svg = Completed 0,
       environ = (\<lambda>v. None), schema_rows = []\<rparr>)) =
   files_written (fst (erd_main \<lparr>psycopg2_installed = True, dot_version = Completed 0,
       dot_writable = True, dot_png = Completed 0, dot_svg = Completed 0,
       environ = (\<lambda>v. if v = ''PGHOST'' then Some ''db.internal'' else None),
       schema_rows = [(''TABLES'', ''invoices'', Some ''id uuid PK'')]\<rparr>))"
proof -
  have a: "snd (erd_main \<lparr>psycopg2_installed = True, dot_version = Completed 0,
       dot_writable = True, dot_png = Completed 0, dot_svg = Completed 0,
       environ = (\<lambda>v. if v = ''PGHOST'' then Some ''db.internal'' else None),
       schema_rows = [(''TABLES'', ''invoices'', Some ''id uuid PK'')]\<rparr>) = 0"
    by (simp add: erd_main_def check_dependencies_def render_diagrams_def)
  have b: "snd (erd_main \<lparr>psycopg2_installed = False, dot_version = Completed 0,
       dot_writable = True, dot_png = Completed 0, dot_svg = Completed 0,
       environ = (\<lambda>v. None), schema_rows = []\<rparr>) = 0"
    by (simp add: erd_main_def check_dependencies_def render_diagrams_def)
  from a b diagram_text_is_fixed [OF a b] show ?thesis
    by blast
qed

section \<open>Self-references in the diagram\<close>

lemma edge_endpoints_append:
  "edge_endpoints (xs @ ys) = edge_endpoints xs @ edge_endpoints ys"
  by (simp add: edge_endpoints_def relationship_rows_def)

lemma edge_endpoints_self:
  "\<not> has_arrow t \<Longrightarrow>
     edge_endpoints [(''RELATIONSHIPS'', t @ ''->'' @ t, details)] = [(t, t)]"
  using split_arrow_pair [of t t] by (simp add: edge_endpoints_def relationship_rows_def)

lemma relationship_row_between:
  "details_present (xs @ [(''RELATIONSHIPS'', name, details)] @ ys) = details_present (xs @ ys)"
  "node_decls (xs @ [(''RELATIONSHIPS'', name, details)] @ ys) = node_decls (xs @ ys)"
  by (simp_all add: details_present_def node_decls_def table_rows_def)

lemma static_self_edge:
  "filter (\<lambda>line. take 16 line = ''  users -> users'') static_dot_lines =
     [''  users -> users [label='' @ [CHR 0x22] @ ''referred_by_user_id'' @ [CHR 0x22] @ ''];'']"
  by (simp add: static_dot_lines_def lbr_def)

text \<open>
  Claim C7, as amended. A relationship of a table \<open>t\<close> to itself, the row named
  \<open>t->t\<close>, where the name \<open>t\<close> does not contain \<open>->\<close>, gives exactly one edge
  in the text that the builder returns, from node \<open>t\<close> to node \<open>t\<close>, at its place
  among the edges of the rows before and after it: it is not dropped. (The other rows
  are such that the builder returns: their table rows have details.) The file that a
  successful run of \<open>main\<close> writes consists of the lines of the fixed text, of which
  exactly one is the edge from \<open>users\<close> to \<open>users\<close>.
\<close>

theorem self_reference_kept:
  assumes "\<not> has_arrow t" and "details_present (before @ after)"
  shows "generate_dot_content
           (before @ [(''RELATIONSHIPS'', t @ ''->'' @ t, details)] @ after) =
           Inr (dot_prologue @ join ''\<newline>'' (node_decls (before @ after)) @ dot_middle
                @ join ''\<newline>''
                    (map (\<lambda>(a, b). edge_decl a b) (edge_endpoints before)
                     @ [edge_decl t t]
                     @ map (\<lambda>(a, b). edge_decl a b) (edge_endpoints after))
                @ dot_epilogue) \<and>
         (snd (erd_main env) = 0 \<longrightarrow>
            files_written (fst (erd_main env)) =
              [(''schema_diagram.dot'', join ''\<newline>'' static_dot_lines)]) \<and>
         filter (\<lambda>line. take 16 line = ''  users -> users'') static_dot_lines =
           [''  users -> users [label='' @ [CHR 0x22] @ ''referred_by_user_id'' @ [CHR 0x22] @ ''];'']"
proof (intro conjI)
  have "edge_endpoints (before @ [(''RELATIONSHIPS'', t @ ''->'' @ t, details)] @ after) =
      edge_endpoints before @ [(t, t)] @ edge_endpoints after"
    by (simp only: edge_endpoints_append edge_endpoints_self [OF assms(1)])
  then
  show "generate_dot_content
           (before @ [(''RELATIONSHIPS'', t @ ''->'' @ t, details)] @ after) =
           Inr (dot_prologue @ join ''\<newline>'' (node_decls (before @ after)) @ dot_middle
                @ join ''\<newline>''
                    (map (\<lambda>(a, b). edge_decl a b) (edge_endpoints before)
                     @ [edge_decl t t]
                     @ map (\<lambda>(a, b). edge_decl a b) (edge_endpoints after))
                @ dot_epilogue)"
    unfolding generate_dot_content_eq relationship_row_between
    using assms(2) by simp
next
  show "snd (erd_main env) = 0 \<longrightarrow>
      files_written (fst (erd_main env)) =
        [(''schema_diagram.dot'', join ''\<newline>'' static_dot_lines)]"
    using erd_main_success(1) [of env] by (simp add: dot_content_def)
next
  show "filter (\<lambda>line. take 16 line = ''  users -> users'') static_dot_lines =
           [''  users -> users [label='' @ [CHR 0x22] @ ''referred_by_user_id'' @ [CHR 0x22] @ ''];'']"
    by (rule static_self_edge)
qed

theorem self_reference_kept_witness:
  "\<not> has_arrow ''users'' \<and>
   details_present ([(''TABLES'', ''users'', Some ''id uuid PK'')] @ []) \<and>
   generate_dot_content
     [(''TABLES'', ''users'', Some ''id uuid PK''),
      (''RELATIONSHIPS'', ''users->users'', Some ''referred_by_user_id->id'')] =
     Inr (dot_prologue @ node_decl ''users'' ''id uuid PK'' @ dot_middle
          @ ''  users -> users;'' @ dot_epilogue) \<and>
   snd (erd_main \<lparr>psycopg2_installed = True, dot_version = Completed 0, dot_writable = True,
       dot_png = Completed 0, dot_svg = Completed 0, environ = (\<lambda>v. None),
       schema_rows = []\<rparr>) = 0 \<and>
   files_written (fst (erd_main \<lparr>psycopg2_installed = True, dot_version = Completed 0,
       dot_writable = True, dot_png = Completed 0, dot_svg = Completed 0,
       environ = (\<lambda>v. None), schema_rows = []\<rparr>)) =
     [(''schema_diagram.dot'', join ''\<newline>'' static_dot_lines)]"
proof -
  have a: "\<not> has_arrow ''users''"
    by simp
  have p: "details_present ([(''TABLES'', ''users'', Some ''id uuid PK'')] @ [])"
    by (simp add: details_present_def table_rows_def)
  have n: "node_decls [(''TABLES'', ''users'', Some ''id uuid PK'')] =
      [node_decl ''users'' ''id uuid PK'']"
    by (simp add: node_decls_def table_rows_def replace_char_def)
  have e: "edge_endpoints [(''TABLES'', ''users'', Some ''id uuid PK'')] = []"
      "edge_endpoints ([] :: schema_row list) = []"
    by (simp_all add: edge_endpoints_def relationship_rows_def)
  have s: "snd (erd_main \<lparr>psycopg2_installed = True, dot_version = Completed 0,
       dot_writable = True, dot_png = Completed 0, dot_svg = Completed 0,
       environ = (\<lambda>v. None), schema_rows = []\<rparr>) = 0"
    by (simp add: erd_main_def check_dependencies_def render_diagrams_def)
  from self_reference_kept [OF a p, of "Some ''referred_by_user_id->id''"
      "\<lparr>psycopg2_installed = True, dot_version = Completed 0,
       dot_writable = True, dot_png = Completed 0, dot_svg = Completed 0,
       environ = (\<lambda>v. None), schema_rows = []\<rparr>"] a p s
  show ?thesis
    by (simp add: n e edge_decl_def)
qed

text \<open>
  Claim C7 as stated fails: for a table named \<open>a->b\<close> that refers to itself, the row
  named \<open>a->b->a->b\<close> splits into four parts, and the text returned declares the
  table but has no edge.
\<close>

theorem self_reference_dropped:
  "generate_dot_content
     [(''TABLES'', ''a->b'', Some ''id uuid PK''),
      (''RELATIONSHIPS'', ''a->b->a->b'', Some ''parent_id->id'')] =
     Inr (dot_prologue @ node_decl ''a->b'' ''id uuid PK'' @ dot_middle @ dot_epilogue)"
  by (simp add: generate_dot_content_def dot_lists_def dot_step_def split_arrow_def
      replace_char_def)

end
